theory Spec2Isabelle
  imports Complex_Main "HOL-Library.Log_Nat" "HOL-Library.AList"
begin

section \<open>Python values\<close>

text \<open>
  The bot (\<^verbatim>\<open>bot.py\<close>) works on what \<^verbatim>\<open>requests\<close> decodes from the exchange's JSON:
  \<^verbatim>\<open>None\<close>, booleans, unbounded integers, floats, strings, lists and dictionaries.
  A Python \<^verbatim>\<open>float\<close> is an IEEE binary64 number: a finite value, one of the two
  infinities, or NaN. A finite value is kept as the rational it denotes; the two
  zeros are both \<open>Fin 0\<close> (the program never observes the sign of a zero: a division
  by either raises).
\<close>

datatype pyfloat = Fin rat | PInf | NInf | NaN

datatype json =
    JNull
  | JBool bool
  | JInt int
  | JFloat pyfloat
  | JStr string
  | JArr "json list"
  | JObj "(string \<times> json) list"

text \<open>A dictionary keeps its keys in insertion order, each key once.\<close>

type_synonym pydict = "(string \<times> json) list"

text \<open>The exceptions the modelled functions raise.\<close>

datatype error =
    NoEligibleOffer     \<comment> \<open>the \<^verbatim>\<open>RuntimeError\<close> of \<^verbatim>\<open>find_best_eth_dual_one_day\<close>\<close>
  | ContractNotFound    \<comment> \<open>the \<^verbatim>\<open>RuntimeError\<close> of \<^verbatim>\<open>get_futures_contract\<close>\<close>
  | ValueError
  | TypeError
  | OverflowError
  | ZeroDivisionError
  | KeyError string
  | IndexError
  | OSError
  | HTTPError           \<comment> \<open>whatever \<^verbatim>\<open>requests\<close> or \<^verbatim>\<open>raise_for_status\<close> raises\<close>

text \<open>\<^verbatim>\<open>d.get(k, default)\<close>, \<^verbatim>\<open>d.get(k)\<close>, \<^verbatim>\<open>d[k]\<close> and \<^verbatim>\<open>d[k] = v\<close>.\<close>

definition get_default :: "pydict \<Rightarrow> string \<Rightarrow> json \<Rightarrow> json" where
  "get_default d k dflt = (case map_of d k of None \<Rightarrow> dflt | Some v \<Rightarrow> v)"

definition get :: "pydict \<Rightarrow> string \<Rightarrow> json" where
  "get d k = get_default d k JNull"

definition subscript :: "pydict \<Rightarrow> string \<Rightarrow> error + json" where
  "subscript d k = (case map_of d k of None \<Rightarrow> Inl (KeyError k) | Some v \<Rightarrow> Inr v)"

definition setitem :: "pydict \<Rightarrow> string \<Rightarrow> json \<Rightarrow> pydict" where
  "setitem d k v = AList.update k v d"

subsection \<open>Rounding to binary64\<close>

definition pow_int :: "rat \<Rightarrow> int \<Rightarrow> rat" where
  "pow_int b e = (if 0 \<le> e then b ^ nat e else 1 / b ^ nat (- e))"

text \<open>\<open>ilog2 x\<close> is the exponent \<open>e\<close> with \<open>2^e \<le> x < 2^(e+1)\<close>, for \<open>x > 0\<close>.\<close>

definition ilog2 :: "rat \<Rightarrow> int" where
  "ilog2 x =
     (let (p, q) = quotient_of x;
          e = bitlen p - bitlen q
      in if pow_int 2 e \<le> x then e else e - 1)"

text \<open>Rounding to the nearest integer, ties to the even one.\<close>

definition round_half_even :: "rat \<Rightarrow> int" where
  "round_half_even x =
     (let f = \<lfloor>x\<rfloor>; d = x - of_int f
      in if d < 1 / 2 then f
         else if 1 / 2 < d then f + 1
         else if even f then f else f + 1)"

text \<open>
  The binary64 number nearest to a rational (ties to even): 53 significant bits,
  least exponent \<open>-1022\<close> (below it the subnormal spacing \<open>2^-1074\<close>), and an
  infinity once the rounded value reaches \<open>2^1024\<close>.
\<close>

definition to_double :: "rat \<Rightarrow> pyfloat" where
  "to_double x =
     (if x = 0 then Fin 0
      else
        let a = \<bar>x\<bar>;
            e = max (ilog2 a) (- 1022);
            ulp = pow_int 2 (e - 52);
            y = of_int (round_half_even (a / ulp)) * ulp
        in if 1024 \<le> ilog2 y then (if 0 < x then PInf else NInf)
           else Fin (if 0 < x then y else - y))"

subsection \<open>The conversions \<^verbatim>\<open>float(x)\<close>, \<^verbatim>\<open>int(x)\<close> and \<^verbatim>\<open>round(x)\<close>\<close>

text \<open>
  Strings are sequences of code points below 256. \<^verbatim>\<open>float\<close> and \<^verbatim>\<open>int\<close> strip
  the white space of C (\<^verbatim>\<open>" \t\n\v\f\r"\<close>) and the code points \<open>0x85\<close> and \<open>0xA0\<close>
  at both ends; \<^verbatim>\<open>str.strip\<close> strips \<open>0x1C\<close> to \<open>0x1F\<close> as well.
\<close>

definition is_float_space :: "char \<Rightarrow> bool" where
  "is_float_space c = ((of_char c :: int) \<in> {9, 10, 11, 12, 13, 32, 133, 160})"

definition is_str_space :: "char \<Rightarrow> bool" where
  "is_str_space c = ((of_char c :: int) \<in> {9, 10, 11, 12, 13, 28, 29, 30, 31, 32, 133, 160})"

definition strip_with :: "(char \<Rightarrow> bool) \<Rightarrow> string \<Rightarrow> string" where
  "strip_with sp s = rev (dropWhile sp (rev (dropWhile sp s)))"

definition str_strip :: "string \<Rightarrow> string" where
  "str_strip s = strip_with is_str_space s"

definition is_digit :: "char \<Rightarrow> bool" where
  "is_digit c = (48 \<le> (of_char c :: int) \<and> (of_char c :: int) \<le> 57)"

definition digit_val :: "char \<Rightarrow> int" where
  "digit_val c = of_char c - 48"

text \<open>The number a sequence of decimal digits denotes.\<close>

definition int_of_digits :: "string \<Rightarrow> int" where
  "int_of_digits ds = foldl (\<lambda>a c. 10 * a + digit_val c) 0 ds"

text \<open>
  An underscore is accepted between two digits only, and dropped; \<open>prev\<close> is the
  character before. \<open>None\<close> is the rejection.
\<close>

fun drop_underscores :: "char option \<Rightarrow> string \<Rightarrow> string option" where
  "drop_underscores prev [] = (if prev = Some (CHR ''_'') then None else Some [])"
| "drop_underscores prev (c # cs) =
     (if c = CHR ''_'' then
        (case prev of
           None \<Rightarrow> None
         | Some p \<Rightarrow> if is_digit p then drop_underscores (Some c) cs else None)
      else if prev = Some (CHR ''_'') \<and> \<not> is_digit c then None
      else map_option ((#) c) (drop_underscores (Some c) cs))"

definition split_sign :: "string \<Rightarrow> int \<times> string" where
  "split_sign s =
     (case s of
        [] \<Rightarrow> (1, [])
      | c # cs \<Rightarrow> if c = CHR ''-'' then (- 1, cs) else if c = CHR ''+'' then (1, cs) else (1, s))"

definition lower :: "char \<Rightarrow> char" where
  "lower c = (if 65 \<le> (of_char c :: int) \<and> (of_char c :: int) \<le> 90
              then char_of ((of_char c :: int) + 32) else c)"

text \<open>The exponent part: empty, or \<^verbatim>\<open>e\<close>/\<^verbatim>\<open>E\<close>, an optional sign and at least one digit.\<close>

definition exponent_part :: "string \<Rightarrow> int option" where
  "exponent_part s =
     (case s of
        [] \<Rightarrow> Some 0
      | c # cs \<Rightarrow>
          if c = CHR ''e'' \<or> c = CHR ''E'' then
            (let (sg, ds) = split_sign cs
             in if ds \<noteq> [] \<and> list_all is_digit ds then Some (sg * int_of_digits ds)
                else None)
          else None)"

text \<open>\<^verbatim>\<open>float(s)\<close> for a string; \<open>None\<close> is the \<^verbatim>\<open>ValueError\<close>.\<close>

definition float_of_str :: "string \<Rightarrow> pyfloat option" where
  "float_of_str s =
     (case drop_underscores None (strip_with is_float_space s) of
        None \<Rightarrow> None
      | Some t \<Rightarrow>
          let (sg, u) = split_sign t; l = map lower u
          in if l = ''inf'' \<or> l = ''infinity'' then Some (if sg = 1 then PInf else NInf)
             else if l = ''nan'' then Some NaN
             else
               let ip = takeWhile is_digit u;
                   r = dropWhile is_digit u;
                   (fp, r') = (case r of
                                 [] \<Rightarrow> ([], r)
                               | c # cs \<Rightarrow> if c = CHR ''.''
                                           then (takeWhile is_digit cs, dropWhile is_digit cs)
                                           else ([], r))
               in if ip = [] \<and> fp = [] then None
                  else
                    (case exponent_part r' of
                       None \<Rightarrow> None
                     | Some e \<Rightarrow>
                         Some (to_double (of_int sg * of_int (int_of_digits (ip @ fp))
                                          * pow_int 10 (e - int (length fp))))))"

text \<open>
  \<^verbatim>\<open>int(s)\<close> for a string, in base 10; \<open>None\<close> is the \<^verbatim>\<open>ValueError\<close>. CPython (from
  3.11 on) also rejects a number of more than 4300 digits, sign, blanks and
  underscores not counted.
\<close>

definition int_of_str :: "string \<Rightarrow> int option" where
  "int_of_str s =
     (case drop_underscores None (strip_with is_float_space s) of
        None \<Rightarrow> None
      | Some t \<Rightarrow>
          let (sg, ds) = split_sign t
          in if ds \<noteq> [] \<and> list_all is_digit ds \<and> length ds \<le> 4300
             then Some (sg * int_of_digits ds)
             else None)"

text \<open>An integer converts to the nearest float, or overflows.\<close>

definition float_of_int :: "int \<Rightarrow> error + pyfloat" where
  "float_of_int n =
     (case to_double (of_int n) of
        Fin r \<Rightarrow> Inr (Fin r)
      | _ \<Rightarrow> Inl OverflowError)"

definition py_float :: "json \<Rightarrow> error + pyfloat" where
  "py_float v =
     (case v of
        JStr s \<Rightarrow> (case float_of_str s of None \<Rightarrow> Inl ValueError | Some f \<Rightarrow> Inr f)
      | JFloat f \<Rightarrow> Inr f
      | JInt n \<Rightarrow> float_of_int n
      | JBool b \<Rightarrow> Inr (Fin (if b then 1 else 0))
      | _ \<Rightarrow> Inl TypeError)"

definition trunc :: "rat \<Rightarrow> int" where
  "trunc r = (if 0 \<le> r then \<lfloor>r\<rfloor> else \<lceil>r\<rceil>)"

definition py_int :: "json \<Rightarrow> error + int" where
  "py_int v =
     (case v of
        JInt n \<Rightarrow> Inr n
      | JBool b \<Rightarrow> Inr (if b then 1 else 0)
      | JFloat (Fin r) \<Rightarrow> Inr (trunc r)
      | JFloat NaN \<Rightarrow> Inl ValueError
      | JFloat _ \<Rightarrow> Inl OverflowError
      | JStr s \<Rightarrow> (case int_of_str s of None \<Rightarrow> Inl ValueError | Some n \<Rightarrow> Inr n)
      | _ \<Rightarrow> Inl TypeError)"

text \<open>\<^verbatim>\<open>round(x)\<close> of a float, without digits: the nearest integer, ties to even.\<close>

definition py_round :: "pyfloat \<Rightarrow> error + int" where
  "py_round x =
     (case x of
        Fin r \<Rightarrow> Inr (round_half_even r)
      | NaN \<Rightarrow> Inl ValueError
      | _ \<Rightarrow> Inl OverflowError)"

text \<open>
  \<^verbatim>\<open>a / b\<close> on floats: a zero divisor raises whatever the dividend is; NaN spreads;
  an overflowing quotient is an infinity, silently.
\<close>

definition float_div :: "pyfloat \<Rightarrow> pyfloat \<Rightarrow> error + pyfloat" where
  "float_div a b =
     (if b = Fin 0 then Inl ZeroDivisionError
      else Inr (case (a, b) of
                  (NaN, _) \<Rightarrow> NaN
                | (_, NaN) \<Rightarrow> NaN
                | (Fin x, Fin y) \<Rightarrow> to_double (x / y)
                | (Fin x, _) \<Rightarrow> Fin 0
                | (PInf, Fin y) \<Rightarrow> if 0 < y then PInf else NInf
                | (NInf, Fin y) \<Rightarrow> if 0 < y then NInf else PInf
                | _ \<Rightarrow> NaN))"

text \<open>\<^verbatim>\<open>a > b\<close> on floats: false whenever a NaN is compared.\<close>

fun float_gt :: "pyfloat \<Rightarrow> pyfloat \<Rightarrow> bool" where
  "float_gt NaN _ = False"
| "float_gt _ NaN = False"
| "float_gt (Fin x) (Fin y) = (y < x)"
| "float_gt PInf PInf = False"
| "float_gt PInf _ = True"
| "float_gt NInf _ = False"
| "float_gt (Fin x) NInf = True"
| "float_gt (Fin x) PInf = False"

section \<open>The hedge sizer\<close>

text \<open>
  \<^verbatim>\<open>
  def calc_contract_size_from_usdt(notional_usdt, contract_info, mark_price):
      multiplier = 1.0
      if "quanto_multiplier" in contract_info:
          try:
              multiplier = float(contract_info["quanto_multiplier"])
          except ValueError:
              multiplier = 1.0
      size = int(round(notional_usdt / multiplier))
      if size == 0:
          size = 1
      return size
  \<close>
  Only \<^verbatim>\<open>ValueError\<close> is caught: any other exception of \<^verbatim>\<open>float\<close> leaves the function.
  \<^verbatim>\<open>main\<close> passes floats for the notional and the mark price.
\<close>

definition lot_multiplier :: "pydict \<Rightarrow> error + pyfloat" where
  "lot_multiplier contract_info =
     (case map_of contract_info ''quanto_multiplier'' of
        None \<Rightarrow> Inr (Fin 1)
      | Some v \<Rightarrow>
          (case py_float v of
             Inl ValueError \<Rightarrow> Inr (Fin 1)
           | Inl e \<Rightarrow> Inl e
           | Inr m \<Rightarrow> Inr m))"

definition calc_contract_size_from_usdt :: "pyfloat \<Rightarrow> pydict \<Rightarrow> pyfloat \<Rightarrow> error + int" where
  "calc_contract_size_from_usdt notional_usdt contract_info mark_price =
     (case lot_multiplier contract_info of
        Inl e \<Rightarrow> Inl e
      | Inr multiplier \<Rightarrow>
          (case float_div notional_usdt multiplier of
             Inl e \<Rightarrow> Inl e
           | Inr q \<Rightarrow>
               (case py_round q of
                  Inl e \<Rightarrow> Inl e
                | Inr sz \<Rightarrow> Inr (if sz = 0 then 1 else sz))))"

section \<open>The offer selector\<close>

text \<open>
  \<^verbatim>\<open>try: x = float(v)  except ValueError: x = dflt\<close>. Only \<^verbatim>\<open>ValueError\<close> is
  caught.
\<close>

definition float_or :: "json \<Rightarrow> pyfloat \<Rightarrow> error + pyfloat" where
  "float_or v dflt =
     (case py_float v of
        Inl ValueError \<Rightarrow> Inr dflt
      | Inl e \<Rightarrow> Inl e
      | Inr x \<Rightarrow> Inr x)"

definition one_day_sec :: int where
  "one_day_sec = 24 * 60 * 60"

text \<open>
  \<^verbatim>\<open>0.5 * one_day_sec <= delivery - now <= 2.0 * one_day_sec\<close>: both products are
  exact floats, and Python compares an integer with a float exactly.
\<close>

definition in_window :: "int \<Rightarrow> int \<Rightarrow> bool" where
  "in_window now delivery =
     ((1 / 2) * (of_int one_day_sec :: rat) \<le> of_int (delivery - now)
      \<and> (of_int (delivery - now) :: rat) \<le> 2 * of_int one_day_sec)"

text \<open>
  The loop of \<^verbatim>\<open>find_best_eth_dual_one_day\<close> over the decoded plans, in order:
  \<^verbatim>\<open>
  for p in plans:
      if p.get("invest_currency") != "USDT": continue
      if p.get("exercise_currency") != "ETH": continue
      if p.get("type") != "put": continue
      if p.get("status") != "ONGOING": continue
      delivery = int(p.get("delivery_time", 0))
      if not (0.5 * one_day_sec <= delivery - now <= 2.0 * one_day_sec): continue
      try: apy = float(p.get("apy_display", "0"))
      except ValueError: apy = 0.0
      p["_apy"] = apy
      candidates.append(p)
  \<close>
  The first plan whose conversion raises ends the loop with that exception.
\<close>

fun candidates_of :: "int \<Rightarrow> pydict list \<Rightarrow> error + pydict list" where
  "candidates_of now [] = Inr []"
| "candidates_of now (p # ps) =
     (if get p ''invest_currency'' \<noteq> JStr ''USDT'' then candidates_of now ps
      else if get p ''exercise_currency'' \<noteq> JStr ''ETH'' then candidates_of now ps
      else if get p ''type'' \<noteq> JStr ''put'' then candidates_of now ps
      else if get p ''status'' \<noteq> JStr ''ONGOING'' then candidates_of now ps
      else
        (case py_int (get_default p ''delivery_time'' (JInt 0)) of
           Inl e \<Rightarrow> Inl e
         | Inr delivery \<Rightarrow>
             if \<not> in_window now delivery then candidates_of now ps
             else
               (case float_or (get_default p ''apy_display'' (JStr ''0'')) (Fin 0) of
                  Inl e \<Rightarrow> Inl e
                | Inr apy \<Rightarrow>
                    (case candidates_of now ps of
                       Inl e \<Rightarrow> Inl e
                     | Inr cs \<Rightarrow> Inr (setitem p ''_apy'' (JFloat apy) # cs)))))"

text \<open>
  \<^verbatim>\<open>max(candidates, key=lambda x: x["_apy"])\<close>: the key of each item is taken once;
  an item replaces the best one so far only when its key is greater, so of several
  greatest items the first is returned. The keys are the floats the loop stored.
\<close>

definition key_apy :: "pydict \<Rightarrow> error + pyfloat" where
  "key_apy x =
     (case subscript x ''_apy'' of
        Inl e \<Rightarrow> Inl e
      | Inr (JFloat f) \<Rightarrow> Inr f
      | Inr _ \<Rightarrow> Inl TypeError)"

fun max_loop :: "pydict \<Rightarrow> pyfloat \<Rightarrow> pydict list \<Rightarrow> error + pydict" where
  "max_loop best best_key [] = Inr best"
| "max_loop best best_key (x # xs) =
     (case key_apy x of
        Inl e \<Rightarrow> Inl e
      | Inr k \<Rightarrow> if float_gt k best_key then max_loop x k xs else max_loop best best_key xs)"

definition max_by_apy :: "pydict list \<Rightarrow> error + pydict" where
  "max_by_apy cs =
     (case cs of
        [] \<Rightarrow> Inl ValueError
      | x # xs \<Rightarrow> (case key_apy x of Inl e \<Rightarrow> Inl e | Inr k \<Rightarrow> max_loop x k xs))"

text \<open>
  The selector, given what \<^verbatim>\<open>http_get("/earn/dual/investment_plan")\<close> gave (an
  exception, or the decoded list of plans) and \<^verbatim>\<open>now = int(time.time())\<close>.
\<close>

definition find_best_eth_dual_one_day :: "error + pydict list \<Rightarrow> int \<Rightarrow> error + pydict" where
  "find_best_eth_dual_one_day response now =
     (case response of
        Inl e \<Rightarrow> Inl e
      | Inr plans \<Rightarrow>
          (case candidates_of now plans of
             Inl e \<Rightarrow> Inl e
           | Inr candidates \<Rightarrow>
               if candidates = [] then Inl NoEligibleOffer else max_by_apy candidates))"

subsection \<open>The filter, as the specification words it\<close>

text \<open>
  An offer is eligible when its four fields match and its delivery time, read as
  an integer, lies in the window.
\<close>

definition fields_match :: "pydict \<Rightarrow> bool" where
  "fields_match p =
     (get p ''invest_currency'' = JStr ''USDT''
      \<and> get p ''exercise_currency'' = JStr ''ETH''
      \<and> get p ''type'' = JStr ''put''
      \<and> get p ''status'' = JStr ''ONGOING'')"

definition eligible :: "int \<Rightarrow> pydict \<Rightarrow> bool" where
  "eligible now p =
     (fields_match p
      \<and> (case py_int (get_default p ''delivery_time'' (JInt 0)) of
            Inl e \<Rightarrow> False
          | Inr delivery \<Rightarrow> in_window now delivery))"

text \<open>The yield the selector ranks an offer by.\<close>

definition parsed_yield :: "pydict \<Rightarrow> error + pyfloat" where
  "parsed_yield p = float_or (get_default p ''apy_display'' (JStr ''0'')) (Fin 0)"

text \<open>
  The selector reads an offer without an exception: once the four fields match,
  the delivery time converts to an integer, and the yield of an offer inside the
  window converts to a float (or is malformed text, or absent).
\<close>

definition readable :: "int \<Rightarrow> pydict \<Rightarrow> bool" where
  "readable now p =
     (if fields_match p then
        (case py_int (get_default p ''delivery_time'' (JInt 0)) of
           Inl e \<Rightarrow> False
         | Inr delivery \<Rightarrow>
             if in_window now delivery then
               (case parsed_yield p of Inl e \<Rightarrow> False | Inr a \<Rightarrow> True)
             else True)
      else True)"

text \<open>The candidate the loop stores for an offer: the offer with its yield under \<^verbatim>\<open>_apy\<close>.\<close>

definition annotated :: "pydict \<Rightarrow> pydict \<Rightarrow> bool" where
  "annotated p c =
     (case parsed_yield p of
        Inl e \<Rightarrow> False
      | Inr a \<Rightarrow> c = setitem p ''_apy'' (JFloat a))"

text \<open>\<^verbatim>\<open>a <= b\<close> on floats.\<close>

definition float_le :: "pyfloat \<Rightarrow> pyfloat \<Rightarrow> bool" where
  "float_le a b = (a \<noteq> NaN \<and> b \<noteq> NaN \<and> \<not> float_gt a b)"

text \<open>
  An offer as the exchange lists it, for the examples: USDT invested, ETH the
  exercise currency, a put, ongoing, with the delivery time and the yield given.
\<close>

definition sample_offer :: "json \<Rightarrow> json \<Rightarrow> pydict" where
  "sample_offer delivery apy =
     [(''id'', JInt 272), (''invest_currency'', JStr ''USDT''),
      (''exercise_currency'', JStr ''ETH''), (''type'', JStr ''put''),
      (''status'', JStr ''ONGOING''), (''delivery_time'', delivery),
      (''exercise_price'', JStr ''3000''), (''apy_display'', apy)]"

section \<open>Remote calls and their trace\<close>

text \<open>
  Every call to the exchange and every sleep is recorded, in order. The request
  signature and the credentials are not modelled. A request body keeps the values
  the source renders with \<^verbatim>\<open>str\<close> (the plan's id, the amount) unrendered.
\<close>

record dual_order =
  dual_plan_id :: json
  dual_amount :: pyfloat
  dual_text :: string

record futures_order =
  fut_contract :: string
  fut_size :: int
  fut_iceberg :: int
  fut_tif :: string
  fut_text :: string
  fut_reduce_only :: bool

datatype post_body = DualOrder dual_order | FuturesOrder futures_order

datatype event =
    HttpGet string string     \<comment> \<open>path and query\<close>
  | HttpPost string post_body \<comment> \<open>path and body\<close>
  | Sleep nat

text \<open>A step: the calls it made, and its exception or its value.\<close>

type_synonym 'a step = "event list \<times> (error + 'a)"

definition then_do :: "'a step \<Rightarrow> ('a \<Rightarrow> 'b step) \<Rightarrow> 'b step" where
  "then_do m f =
     (case m of
        (tr, Inl e) \<Rightarrow> (tr, Inl e)
      | (tr, Inr x) \<Rightarrow> (case f x of (tr', r) \<Rightarrow> (tr @ tr', r)))"

definition no_call :: "error + 'a \<Rightarrow> 'a step" where
  "no_call r = ([], r)"

section \<open>Orders\<close>

text \<open>
  \<^verbatim>\<open>
  def place_dual_order(plan, amount_usdt, api_key, api_secret, custom_text):
      body = {"plan_id": str(plan["id"]), "amount": str(amount_usdt), "text": custom_text}
      resp = http_post("/earn/dual/orders", body, ...)
      return resp
  \<close>
  \<open>response\<close> is what the exchange answers to the request.
\<close>

definition place_dual_order ::
    "pydict \<Rightarrow> pyfloat \<Rightarrow> string \<Rightarrow> error + json \<Rightarrow> json step" where
  "place_dual_order plan amount_usdt custom_text response =
     (case subscript plan ''id'' of
        Inl e \<Rightarrow> ([], Inl e)
      | Inr plan_id \<Rightarrow>
          ([HttpPost ''/earn/dual/orders''
              (DualOrder \<lparr>dual_plan_id = plan_id, dual_amount = amount_usdt,
                          dual_text = custom_text\<rparr>)],
           response))"

text \<open>
  \<^verbatim>\<open>
  def open_futures_short(settle, contract, size, api_key, api_secret, reduce_only=False):
      body = {"contract": contract, "size": -abs(int(size)), "iceberg": 0,
              "tif": "ioc", "text": "dual-hedge-short"}
      if reduce_only:
          body["reduce_only"] = True
      resp = http_post(f"/futures/{settle}/orders", body, ...)
      return resp
  \<close>
  \<^verbatim>\<open>main\<close> passes an integer size.
\<close>

definition futures_short_body :: "string \<Rightarrow> int \<Rightarrow> bool \<Rightarrow> futures_order" where
  "futures_short_body contract sz reduce_only =
     \<lparr>fut_contract = contract, fut_size = - \<bar>sz\<bar>, fut_iceberg = 0, fut_tif = ''ioc'',
      fut_text = ''dual-hedge-short'', fut_reduce_only = reduce_only\<rparr>"

definition open_futures_short ::
    "string \<Rightarrow> string \<Rightarrow> int \<Rightarrow> bool \<Rightarrow> error + json \<Rightarrow> json step" where
  "open_futures_short settle contract sz reduce_only response =
     ([HttpPost (''/futures/'' @ settle @ ''/orders'')
         (FuturesOrder (futures_short_body contract sz reduce_only))],
      response)"

section \<open>The settlement monitor\<close>







section \<open>The correlation tag\<close>

text \<open>
  \<^verbatim>\<open>custom_text = f"dual-hedge-{int(time.time())}"\<close>. The clock's reading is a
  finite float, given by the rational it denotes; \<^verbatim>\<open>int\<close> drops its fraction, and the
  integer is written in decimal (a float has at most 309 digits before the point).
\<close>

fun str_nat :: "nat \<Rightarrow> string" where
  "str_nat n =
     (if n < 10 then [char_of (48 + n)]
      else str_nat (n div 10) @ [char_of (48 + n mod 10)])"

declare str_nat.simps [simp del]

definition str_int :: "int \<Rightarrow> string" where
  "str_int i = (if i < 0 then CHR ''-'' # str_nat (nat (- i)) else str_nat (nat i))"

definition custom_text :: "rat \<Rightarrow> string" where
  "custom_text clock = ''dual-hedge-'' @ str_int (trunc clock)"

section \<open>The main flow\<close>

text \<open>\<^verbatim>\<open>a * b\<close> on floats.\<close>

definition float_mul :: "pyfloat \<Rightarrow> pyfloat \<Rightarrow> pyfloat" where
  "float_mul a b =
     (case (a, b) of
        (NaN, _) \<Rightarrow> NaN
      | (_, NaN) \<Rightarrow> NaN
      | (Fin x, Fin y) \<Rightarrow> to_double (x * y)
      | (Fin x, PInf) \<Rightarrow> if x = 0 then NaN else if 0 < x then PInf else NInf
      | (Fin x, NInf) \<Rightarrow> if x = 0 then NaN else if 0 < x then NInf else PInf
      | (PInf, Fin y) \<Rightarrow> if y = 0 then NaN else if 0 < y then PInf else NInf
      | (NInf, Fin y) \<Rightarrow> if y = 0 then NaN else if 0 < y then NInf else PInf
      | (PInf, PInf) \<Rightarrow> PInf
      | (NInf, NInf) \<Rightarrow> PInf
      | _ \<Rightarrow> NInf)"

text \<open>
  \<^verbatim>\<open>
  def calc_hedge_size_usdt(amount_dual_usdt, hedge_multiplier, exercise_price):
      return amount_dual_usdt * hedge_multiplier
  \<close>
  The amount is a float; the multiplier is whatever the configuration file holds.
\<close>

definition calc_hedge_size_usdt :: "pyfloat \<Rightarrow> json \<Rightarrow> pyfloat \<Rightarrow> error + pyfloat" where
  "calc_hedge_size_usdt amount_dual_usdt hedge_multiplier exercise_price =
     (case hedge_multiplier of
        JFloat m \<Rightarrow> Inr (float_mul amount_dual_usdt m)
      | JInt n \<Rightarrow>
          (case float_of_int n of
             Inl e \<Rightarrow> Inl e
           | Inr m \<Rightarrow> Inr (float_mul amount_dual_usdt m))
      | JBool b \<Rightarrow> Inr (float_mul amount_dual_usdt (Fin (if b then 1 else 0)))
      | _ \<Rightarrow> Inl TypeError)"

text \<open>
  \<^verbatim>\<open>
  def get_futures_contract(settle, contract):
      data = http_get(f"/futures/{settle}/contracts", "")
      for c in data:
          if c.get("name") == contract:
              return c
      raise RuntimeError(...)

  def get_futures_ticker(settle, contract):
      data = http_get(f"/futures/{settle}/tickers", f"contract={contract}")
      if isinstance(data, list):
          return data[0]
      return data
  \<close>
\<close>

definition get_futures_contract ::
    "string \<Rightarrow> string \<Rightarrow> error + pydict list \<Rightarrow> pydict step" where
  "get_futures_contract settle contract response =
     ([HttpGet (''/futures/'' @ settle @ ''/contracts'') ''''],
      (case response of
         Inl e \<Rightarrow> Inl e
       | Inr data \<Rightarrow>
           (case find (\<lambda>c. get c ''name'' = JStr contract) data of
              None \<Rightarrow> Inl ContractNotFound
            | Some c \<Rightarrow> Inr c)))"

definition get_futures_ticker ::
    "string \<Rightarrow> string \<Rightarrow> error + (pydict list + pydict) \<Rightarrow> pydict step" where
  "get_futures_ticker settle contract response =
     ([HttpGet (''/futures/'' @ settle @ ''/tickers'') (''contract='' @ contract)],
      (case response of
         Inl e \<Rightarrow> Inl e
       | Inr (Inl []) \<Rightarrow> Inl IndexError
       | Inr (Inl (t # ts)) \<Rightarrow> Inr t
       | Inr (Inr t) \<Rightarrow> Inr t))"

text \<open>
  \<^verbatim>\<open>datetime.fromtimestamp(ts, tz=timezone.utc)\<close> of an integer, as CPython on 64-bit
  Linux has it. A timestamp outside the 64-bit \<^verbatim>\<open>time_t\<close> raises \<^verbatim>\<open>OverflowError\<close>; one
  whose year does not fit the C library's \<^verbatim>\<open>gmtime\<close> raises \<^verbatim>\<open>OSError\<close>; one outside
  the years 1 to 9999 raises \<^verbatim>\<open>ValueError\<close>. The date itself is only printed: the
  model keeps the timestamp.
\<close>

definition fromtimestamp :: "int \<Rightarrow> error + int" where
  "fromtimestamp ts =
     (if ts < - (2 ^ 63) \<or> 2 ^ 63 \<le> ts then Inl OverflowError
      else if ts < - 67768040609740800 \<or> 67768036191676799 < ts then Inl OSError
      else if ts < - 62135596800 \<or> 253402300799 < ts then Inl ValueError
      else Inr ts)"

definition subscript_then :: "pydict \<Rightarrow> string \<Rightarrow> (json \<Rightarrow> error + 'a) \<Rightarrow> error + 'a" where
  "subscript_then d k f = (case subscript d k of Inl e \<Rightarrow> Inl e | Inr v \<Rightarrow> f v)"

text \<open>
  The configuration after \<^verbatim>\<open>load_config\<close> (its defaults filled in), and what one
  run meets: the two lines typed at the console, the clock's two readings, and the
  exchange's answer to each request.
\<close>

record config =
  futures_settle :: string
  futures_contract :: string
  hedge_multiplier :: json

record world =
  amount_line :: string
  plans_response :: "error + pydict list"
  now_clock :: rat
  contracts_response :: "error + pydict list"
  ticker_response :: "error + (pydict list + pydict)"
  confirm_line :: string
  tag_clock :: rat
  dual_order_response :: "error + json"
  futures_order_response :: "error + json"

text \<open>
  \<^verbatim>\<open>main\<close>, statement by statement (the prints left out). A run that the user
  declines ends normally before any order.
\<close>

definition main :: "config \<Rightarrow> world \<Rightarrow> unit step" where
  "main cfg w =
     then_do (no_call (py_float (JStr (str_strip (amount_line w))))) (\<lambda>amount_usdt.
     then_do ([HttpGet ''/earn/dual/investment_plan'' ''''],
              find_best_eth_dual_one_day (plans_response w) (trunc (now_clock w))) (\<lambda>plan.
     then_do (no_call (subscript_then plan ''exercise_price'' py_float)) (\<lambda>exercise_price.
     then_do (no_call (py_float (get_default plan ''apy_display'' (JStr ''0'')))) (\<lambda>apy.
     then_do (no_call (subscript_then plan ''delivery_time'' py_int)) (\<lambda>delivery_ts.
     then_do (no_call (fromtimestamp delivery_ts)) (\<lambda>delivery_dt.
     then_do (no_call (calc_hedge_size_usdt amount_usdt (hedge_multiplier cfg) exercise_price))
       (\<lambda>hedge_notional.
     then_do (get_futures_contract (futures_settle cfg) (futures_contract cfg)
                (contracts_response w)) (\<lambda>contract_info.
     then_do (get_futures_ticker (futures_settle cfg) (futures_contract cfg)
                (ticker_response w)) (\<lambda>ticker.
     then_do (no_call (subscript_then ticker ''last'' py_float)) (\<lambda>mark_price.
     then_do (no_call (calc_contract_size_from_usdt hedge_notional contract_info mark_price))
       (\<lambda>contract_size.
     if map lower (str_strip (confirm_line w)) \<noteq> ''yes'' then ([], Inr ())
     else
       then_do (place_dual_order plan amount_usdt (custom_text (tag_clock w))
                  (dual_order_response w)) (\<lambda>dual_resp.
       then_do (open_futures_short (futures_settle cfg) (futures_contract cfg) contract_size
                  False (futures_order_response w)) (\<lambda>fut_resp.
       ([], Inr ()))))))))))))))"

text \<open>The order submissions of a trace, in order.\<close>

definition is_submission :: "event \<Rightarrow> bool" where
  "is_submission ev = (case ev of HttpPost path body \<Rightarrow> True | _ \<Rightarrow> False)"

definition submissions :: "event list \<Rightarrow> event list" where
  "submissions tr = filter is_submission tr"

text \<open>
  The order submissions of a run are in sequence when they are none, or the
  investment order alone, or the investment order and then the hedge order.
\<close>

fun submitted_in_order :: "string \<Rightarrow> event list \<Rightarrow> bool" where
  "submitted_in_order settle [] = True"
| "submitted_in_order settle [HttpPost p (DualOrder d)] = (p = ''/earn/dual/orders'')"
| "submitted_in_order settle [HttpPost p (DualOrder d), HttpPost p' (FuturesOrder f)] =
     (p = ''/earn/dual/orders'' \<and> p' = ''/futures/'' @ settle @ ''/orders'')"
| "submitted_in_order settle ss = False"

subsection \<open>The scenarios of the specification\<close>

text \<open>
  The end-to-end scenario: 1000 USDT typed, one eligible offer at 9% expiring in 23
  hours, the hedge multiplier 1.0, and a contract without \<^verbatim>\<open>quanto_multiplier\<close>. The
  clock reads 1700000000.5 when the offers are selected and 1700000010.5 when the tag
  is made.
\<close>

definition e2e_config :: config where
  "e2e_config =
     \<lparr>futures_settle = ''usdt'', futures_contract = ''ETH_USDT'',
      hedge_multiplier = JFloat (Fin 1)\<rparr>"

definition e2e_world :: world where
  "e2e_world =
     \<lparr>amount_line = ''1000'',
      plans_response = Inr [sample_offer (JInt 1700082800) (JStr ''9.0'')],
      now_clock = 3400000001 / 2,
      contracts_response =
        Inr [[(''name'', JStr ''BTC_USDT''), (''quanto_multiplier'', JStr ''0.0001'')],
             [(''name'', JStr ''ETH_USDT'')]],
      ticker_response = Inr (Inl [[(''contract'', JStr ''ETH_USDT''), (''last'', JStr ''3100.5'')]]),
      confirm_line = ''yes'',
      tag_clock = 3400000021 / 2,
      dual_order_response = Inr (JObj []),
      futures_order_response = Inr (JObj [])\<rparr>"



section \<open>Properties of the hedge sizer\<close>

lemma pow_int_pos: "0 < b \<Longrightarrow> 0 < pow_int b e"
  by (simp add: pow_int_def)

lemma round_half_even_nonneg: "0 \<le> x \<Longrightarrow> 0 \<le> round_half_even x"
  by (auto simp: round_half_even_def Let_def)

lemma to_double_nonneg:
  assumes "0 \<le> x" and "to_double x = Fin y"
  shows "0 \<le> y"
proof (cases "x = 0")
  case True
  with assms show ?thesis by (simp add: to_double_def)
next
  case False
  with assms(1) have pos: "0 < x" by simp
  define ulp where "ulp = pow_int 2 (max (ilog2 \<bar>x\<bar>) (- 1022) - 52)"
  have u: "0 < ulp" unfolding ulp_def by (rule pow_int_pos) simp
  have "0 \<le> round_half_even (\<bar>x\<bar> / ulp)"
    using u by (intro round_half_even_nonneg) simp
  then have "0 \<le> of_int (round_half_even (\<bar>x\<bar> / ulp)) * ulp"
    using u by simp
  moreover have "y = of_int (round_half_even (\<bar>x\<bar> / ulp)) * ulp"
    using assms(2) pos False
    by (simp add: to_double_def Let_def ulp_def split: if_splits)
  ultimately show ?thesis by simp
qed

lemma lot_multiplier_absent:
  "map_of ci ''quanto_multiplier'' = None \<Longrightarrow> lot_multiplier ci = Inr (Fin 1)"
  by (simp add: lot_multiplier_def)

lemma lot_multiplier_malformed:
  "map_of ci ''quanto_multiplier'' = Some (JStr s) \<Longrightarrow> float_of_str s = None \<Longrightarrow>
   lot_multiplier ci = Inr (Fin 1)"
  by (simp add: lot_multiplier_def py_float_def)

lemma lot_multiplier_parsed:
  "map_of ci ''quanto_multiplier'' = Some v \<Longrightarrow> py_float v = Inr x \<Longrightarrow>
   lot_multiplier ci = Inr x"
  by (simp add: lot_multiplier_def)

lemma calc_contract_size_finite:
  assumes "lot_multiplier ci = Inr (Fin m)" and "m \<noteq> 0" and "to_double (n / m) = Fin q"
  shows "calc_contract_size_from_usdt (Fin n) ci p =
         Inr (if round_half_even q = 0 then 1 else round_half_even q)"
  using assms by (simp add: calc_contract_size_from_usdt_def float_div_def py_round_def)

lemma calc_contract_size_nonzero:
  "calc_contract_size_from_usdt n ci p \<noteq> Inr 0"
  by (auto simp: calc_contract_size_from_usdt_def split: sum.splits if_splits)

lemma calc_contract_size_positive:
  assumes "calc_contract_size_from_usdt (Fin n) ci p = Inr sz"
    and "lot_multiplier ci = Inr (Fin m)" and "0 \<le> n" and "0 < m"
  shows "1 \<le> sz"
proof -
  from assms(1,2,4) obtain q where q: "to_double (n / m) = Fin q"
    and sz: "sz = (if round_half_even q = 0 then 1 else round_half_even q)"
    by (auto simp: calc_contract_size_from_usdt_def float_div_def py_round_def
             split: sum.splits pyfloat.splits)
  from assms(3,4) have "0 \<le> n / m" by simp
  from to_double_nonneg[OF this q] have "0 \<le> round_half_even q"
    by (rule round_half_even_nonneg)
  with sz show ?thesis by auto
qed

lemma calc_contract_size_zero_divisor:
  "lot_multiplier ci = Inr (Fin 0) \<Longrightarrow>
   calc_contract_size_from_usdt n ci p = Inl ZeroDivisionError"
  by (simp add: calc_contract_size_from_usdt_def float_div_def)

lemma calc_contract_size_no_zero_division:
  "lot_multiplier ci = Inr m \<Longrightarrow> m \<noteq> Fin 0 \<Longrightarrow>
   calc_contract_size_from_usdt n ci p \<noteq> Inl ZeroDivisionError"
  by (auto simp: calc_contract_size_from_usdt_def float_div_def py_round_def
           split: sum.splits pyfloat.splits)

lemma calc_contract_size_returns_iff:
  assumes "lot_multiplier ci = Inr m"
  shows "(\<exists>sz. calc_contract_size_from_usdt n ci p = Inr sz) \<longleftrightarrow>
         (\<exists>q. float_div n m = Inr (Fin q))"
proof
  assume "\<exists>sz. calc_contract_size_from_usdt n ci p = Inr sz"
  then obtain sz where sz: "calc_contract_size_from_usdt n ci p = Inr sz" ..
  with assms obtain d where d: "float_div n m = Inr d"
    by (cases "float_div n m") (simp_all add: calc_contract_size_from_usdt_def)
  with sz assms obtain q where "d = Fin q"
    by (cases d) (simp_all add: calc_contract_size_from_usdt_def py_round_def)
  with d show "\<exists>q. float_div n m = Inr (Fin q)" by blast
next
  assume "\<exists>q. float_div n m = Inr (Fin q)"
  with assms show "\<exists>sz. calc_contract_size_from_usdt n ci p = Inr sz"
    by (auto simp: calc_contract_size_from_usdt_def py_round_def)
qed

lemma size_1000_unit_multiplier:
  "calc_contract_size_from_usdt (Fin 1000) [(''quanto_multiplier'', JStr ''1.0'')] p = Inr 1000"
  by code_simp

lemma size_1000_unit_multiplier_number:
  "calc_contract_size_from_usdt (Fin 1000) [(''quanto_multiplier'', JFloat (Fin 1))] p = Inr 1000"
  by code_simp

lemma size_04_clamped:
  "calc_contract_size_from_usdt (to_double (4 / 10)) [(''quanto_multiplier'', JStr ''1.0'')] p
   = Inr 1"
  by code_simp

lemma size_250_multiplier_10:
  "calc_contract_size_from_usdt (Fin 250) [(''quanto_multiplier'', JStr ''10.0'')] p = Inr 25"
  by code_simp

lemma lot_multiplier_10: "lot_multiplier [(''quanto_multiplier'', JStr ''10.0'')] = Inr (Fin 10)"
  by code_simp

lemma lot_multiplier_zero: "lot_multiplier [(''quanto_multiplier'', JStr ''0'')] = Inr (Fin 0)"
  by code_simp

lemma lot_multiplier_nan: "lot_multiplier [(''quanto_multiplier'', JStr ''nan'')] = Inr NaN"
  by code_simp

lemma to_double_25: "to_double (250 / 10) = Fin 25"
  by code_simp

lemma round_half_even_negative_iff: "round_half_even q < 0 \<longleftrightarrow> q < - 1 / 2"
proof -
  define f where "f = \<lfloor>q\<rfloor>"
  have lo: "of_int f \<le> q" and hi: "q < of_int f + 1"
    unfolding f_def by linarith+
  show ?thesis
  proof (cases "f \<le> - 2")
    case True
    then have "(of_int f :: rat) \<le> - 2" by (metis of_int_le_iff of_int_minus of_int_numeral)
    with hi have "q < - 1 / 2" by linarith
    moreover from True have "round_half_even q < 0"
      by (auto simp: round_half_even_def Let_def f_def[symmetric])
    ultimately show ?thesis by simp
  next
    case False
    show ?thesis
    proof (cases "f = - 1")
      case True
      then have d: "q - of_int f = q + 1" by simp
      from True have o: "odd f" by simp
      show ?thesis
        using d o True
        by (auto simp: round_half_even_def Let_def f_def[symmetric])
    next
      case nm: False
      with False have "0 \<le> f" by linarith
      then have "(0 :: rat) \<le> of_int f" by simp
      with lo have "0 \<le> q" by linarith
      moreover from \<open>0 \<le> f\<close> have "\<not> round_half_even q < 0"
        by (auto simp: round_half_even_def Let_def f_def[symmetric])
      ultimately show ?thesis by simp
    qed
  qed
qed

lemma float_div_finite:
  "b \<noteq> 0 \<Longrightarrow> float_div (Fin a) (Fin b) = Inr (to_double (a / b))"
  by (simp add: float_div_def)

lemma calc_contract_size_quotient:
  assumes "lot_multiplier ci = Inr m" and "float_div n m = Inr (Fin q)"
  shows "calc_contract_size_from_usdt n ci p =
         Inr (if round_half_even q = 0 then 1 else round_half_even q)"
  using assms by (simp add: calc_contract_size_from_usdt_def py_round_def)

lemma clamped_sign:
  "(1 \<le> (if round_half_even q = 0 then 1 else round_half_even q) \<longleftrightarrow> - 1 / 2 \<le> q)
   \<and> ((if round_half_even q = 0 then 1 else round_half_even q) < 0 \<longleftrightarrow> q < - 1 / 2)"
  using round_half_even_negative_iff[of q] by auto

lemma lot_multiplier_empty: "lot_multiplier [] = Inr (Fin 1)"
  by (simp add: lot_multiplier_def)

lemma lot_multiplier_na: "lot_multiplier [(''quanto_multiplier'', JStr ''n/a'')] = Inr (Fin 1)"
  by code_simp

lemma float_of_str_na: "float_of_str ''n/a'' = None"
  by code_simp

lemma py_float_10: "py_float (JStr ''10.0'') = Inr (Fin 10)"
  by code_simp

lemma float_div_examples:
  "float_div (Fin 1000) (Fin 1) = Inr (Fin 1000)
   \<and> float_div (Fin 250) (Fin 10) = Inr (Fin 25)
   \<and> float_div (Fin (- 5)) (Fin 1) = Inr (Fin (- 5))"
  by code_simp

lemma size_infinite_multiplier:
  "calc_contract_size_from_usdt (Fin 1000) [(''quanto_multiplier'', JStr ''Infinity'')] p = Inr 1"
  by code_simp

text \<open>
  C3 (as the code has it). The lot multiplier is 1.0 when the metadata has no
  \<^verbatim>\<open>quanto_multiplier\<close> or holds text that \<^verbatim>\<open>float\<close> rejects, and the float that
  \<^verbatim>\<open>float\<close> gives for the field otherwise. Whenever the float quotient of the notional
  by the multiplier is a finite float \<open>q\<close>, the size returned is \<open>q\<close> rounded to the
  nearest integer (ties to even), with 0 replaced by 1. No size returned is 0. The
  size is at least 1 exactly when \<open>q\<close> is at least -0.5, so whenever the notional is
  not negative and the multiplier is positive, and it is negative exactly when \<open>q\<close>
  is below -0.5. The quotient of two finite floats, the divisor not zero, is their
  exact quotient rounded to a float. The three sizes of the specification come out:
  1000, 1 (for 0.4, clamped) and 25.
\<close>

theorem contract_size_rounds_and_clamps:
  "(map_of ci ''quanto_multiplier'' = None \<longrightarrow> lot_multiplier ci = Inr (Fin 1))
   \<and> (\<forall>s. map_of ci ''quanto_multiplier'' = Some (JStr s) \<and> float_of_str s = None
          \<longrightarrow> lot_multiplier ci = Inr (Fin 1))
   \<and> (\<forall>v x. map_of ci ''quanto_multiplier'' = Some v \<and> py_float v = Inr x
          \<longrightarrow> lot_multiplier ci = Inr x)
   \<and> (\<forall>m q. lot_multiplier ci = Inr m \<and> float_div n m = Inr (Fin q) \<longrightarrow>
          calc_contract_size_from_usdt n ci p
            = Inr (if round_half_even q = 0 then 1 else round_half_even q)
          \<and> (1 \<le> (if round_half_even q = 0 then 1 else round_half_even q)
               \<longleftrightarrow> - 1 / 2 \<le> q)
          \<and> ((if round_half_even q = 0 then 1 else round_half_even q) < 0
               \<longleftrightarrow> q < - 1 / 2))
   \<and> calc_contract_size_from_usdt n ci p \<noteq> Inr 0
   \<and> (\<forall>a b sz. n = Fin a \<and> lot_multiplier ci = Inr (Fin b) \<and> 0 \<le> a \<and> 0 < b
          \<and> calc_contract_size_from_usdt n ci p = Inr sz \<longrightarrow> 1 \<le> sz)
   \<and> (\<forall>a b. b \<noteq> 0 \<longrightarrow> float_div (Fin a) (Fin b) = Inr (to_double (a / b)))
   \<and> calc_contract_size_from_usdt (Fin 1000) [(''quanto_multiplier'', JStr ''1.0'')] p
       = Inr 1000
   \<and> calc_contract_size_from_usdt (to_double (4 / 10))
         [(''quanto_multiplier'', JStr ''1.0'')] p = Inr 1
   \<and> calc_contract_size_from_usdt (Fin 250) [(''quanto_multiplier'', JStr ''10.0'')] p
       = Inr 25"
proof (intro conjI allI impI)
  show "lot_multiplier ci = Inr (Fin 1)" if "map_of ci ''quanto_multiplier'' = None"
    using that by (rule lot_multiplier_absent)
  show "lot_multiplier ci = Inr (Fin 1)"
    if "map_of ci ''quanto_multiplier'' = Some (JStr s) \<and> float_of_str s = None" for s
    using that lot_multiplier_malformed[of ci s] by blast
  show "lot_multiplier ci = Inr x"
    if "map_of ci ''quanto_multiplier'' = Some v \<and> py_float v = Inr x" for v x
    using that lot_multiplier_parsed[of ci v x] by blast
  show "calc_contract_size_from_usdt n ci p
          = Inr (if round_half_even q = 0 then 1 else round_half_even q)"
    if "lot_multiplier ci = Inr m \<and> float_div n m = Inr (Fin q)" for m q
    using that calc_contract_size_quotient[of ci m n q p] by blast
  show "(1 \<le> (if round_half_even q = 0 then 1 else round_half_even q)) = (- 1 / 2 \<le> q)"
    if "lot_multiplier ci = Inr m \<and> float_div n m = Inr (Fin q)" for m q
    using clamped_sign[of q] by blast
  show "((if round_half_even q = 0 then 1 else round_half_even q) < 0) = (q < - 1 / 2)"
    if "lot_multiplier ci = Inr m \<and> float_div n m = Inr (Fin q)" for m q
    using clamped_sign[of q] by blast
  show "calc_contract_size_from_usdt n ci p \<noteq> Inr 0"
    by (rule calc_contract_size_nonzero)
  show "1 \<le> sz"
    if "n = Fin a \<and> lot_multiplier ci = Inr (Fin b) \<and> 0 \<le> a \<and> 0 < b
        \<and> calc_contract_size_from_usdt n ci p = Inr sz" for a b sz
    using that calc_contract_size_positive[of a ci p sz b] by blast
  show "float_div (Fin a) (Fin b) = Inr (to_double (a / b))" if "b \<noteq> 0" for a b
    using that by (rule float_div_finite)
  show "calc_contract_size_from_usdt (Fin 1000) [(''quanto_multiplier'', JStr ''1.0'')] p
          = Inr 1000"
    by (rule size_1000_unit_multiplier)
  show "calc_contract_size_from_usdt (to_double (4 / 10))
          [(''quanto_multiplier'', JStr ''1.0'')] p = Inr 1"
    by (rule size_04_clamped)
  show "calc_contract_size_from_usdt (Fin 250) [(''quanto_multiplier'', JStr ''10.0'')] p
          = Inr 25"
    by (rule size_250_multiplier_10)
qed

text \<open>
  The theorem at work: on metadata without the field (1000 gives 1000, and -5 gives
  -5), on a field that is not a number, and on the multiplier 10.0 (250 gives 25).
\<close>

theorem contract_size_rounds_and_clamps_witness:
  "map_of ([] :: pydict) ''quanto_multiplier'' = None
   \<and> lot_multiplier [] = Inr (Fin 1)
   \<and> float_div (Fin 1000) (Fin 1) = Inr (Fin 1000)
   \<and> calc_contract_size_from_usdt (Fin 1000) [] (Fin 3000)
       = Inr (if round_half_even 1000 = 0 then 1 else round_half_even 1000)
   \<and> (1 \<le> (if round_half_even 1000 = 0 then 1 else round_half_even 1000))
   \<and> float_div (Fin (- 5)) (Fin 1) = Inr (Fin (- 5))
   \<and> calc_contract_size_from_usdt (Fin (- 5)) [] (Fin 3000)
       = Inr (if round_half_even (- 5) = 0 then 1 else round_half_even (- 5))
   \<and> (if round_half_even (- 5) = 0 then 1 else round_half_even (- 5)) < 0
   \<and> map_of [(''quanto_multiplier'', JStr ''n/a'')] ''quanto_multiplier'' = Some (JStr ''n/a'')
   \<and> float_of_str ''n/a'' = None
   \<and> lot_multiplier [(''quanto_multiplier'', JStr ''n/a'')] = Inr (Fin 1)
   \<and> map_of [(''quanto_multiplier'', JStr ''10.0'')] ''quanto_multiplier''
       = Some (JStr ''10.0'')
   \<and> py_float (JStr ''10.0'') = Inr (Fin 10)
   \<and> lot_multiplier [(''quanto_multiplier'', JStr ''10.0'')] = Inr (Fin 10)
   \<and> float_div (Fin 250) (Fin 10) = Inr (Fin 25)
   \<and> calc_contract_size_from_usdt (Fin 250) [(''quanto_multiplier'', JStr ''10.0'')] (Fin 3000)
       = Inr (if round_half_even 25 = 0 then 1 else round_half_even 25)
   \<and> (\<exists>sz. calc_contract_size_from_usdt (Fin 250) [(''quanto_multiplier'', JStr ''10.0'')]
              (Fin 3000) = Inr sz \<and> 1 \<le> sz)"
proof -
  have a0: "map_of ([] :: pydict) ''quanto_multiplier'' = None" by simp
  have b0: "map_of [(''quanto_multiplier'', JStr ''n/a'')] ''quanto_multiplier''
              = Some (JStr ''n/a'')" by simp
  have c0: "map_of [(''quanto_multiplier'', JStr ''10.0'')] ''quanto_multiplier''
              = Some (JStr ''10.0'')" by simp
  have q: "(- 1 / 2 :: rat) \<le> 1000" "(- 5 :: rat) < - 1 / 2" "(0 :: rat) \<le> 250" "(0 :: rat) < 10"
    by simp_all
  note d = float_div_examples
  note t1 = contract_size_rounds_and_clamps[of "[]" "Fin 1000" "Fin 3000"]
  note t2 = contract_size_rounds_and_clamps[of "[]" "Fin (- 5)" "Fin 3000"]
  note t3 = contract_size_rounds_and_clamps[of "[(''quanto_multiplier'', JStr ''n/a'')]"
      "Fin 1000" "Fin 3000"]
  note t4 = contract_size_rounds_and_clamps[of "[(''quanto_multiplier'', JStr ''10.0'')]"
      "Fin 250" "Fin 3000"]
  from t1 a0 have l1: "lot_multiplier [] = Inr (Fin 1)" by blast
  from t1 l1 d have r1: "calc_contract_size_from_usdt (Fin 1000) [] (Fin 3000)
       = Inr (if round_half_even 1000 = 0 then 1 else round_half_even 1000)
     \<and> (1 \<le> (if round_half_even 1000 = 0 then 1 else round_half_even 1000))"
    using q(1) by blast
  from t2 l1 d have r2: "calc_contract_size_from_usdt (Fin (- 5)) [] (Fin 3000)
       = Inr (if round_half_even (- 5) = 0 then 1 else round_half_even (- 5))
     \<and> (if round_half_even (- 5) = 0 then 1 else round_half_even (- 5)) < 0"
    using q(2) by blast
  from t3 b0 float_of_str_na
  have l3: "lot_multiplier [(''quanto_multiplier'', JStr ''n/a'')] = Inr (Fin 1)" by blast
  from t4 c0 py_float_10
  have l4: "lot_multiplier [(''quanto_multiplier'', JStr ''10.0'')] = Inr (Fin 10)" by blast
  from t4 l4 d have r4: "calc_contract_size_from_usdt (Fin 250)
       [(''quanto_multiplier'', JStr ''10.0'')] (Fin 3000)
       = Inr (if round_half_even 25 = 0 then 1 else round_half_even 25)"
    by blast
  from t4 l4 q(3,4) r4 have p4: "\<exists>sz. calc_contract_size_from_usdt (Fin 250)
       [(''quanto_multiplier'', JStr ''10.0'')] (Fin 3000) = Inr sz \<and> 1 \<le> sz"
    by blast
  from a0 l1 d r1 r2 b0 float_of_str_na l3 c0 py_float_10 l4 r4 p4 show ?thesis
    by (intro conjI) blast+
qed

text \<open>
  C3 as stated fails: the result is not always a non-negative integer, and not
  always a result. A negative notional (the amount typed is not checked) gives a
  negative size, and a multiplier text \<^verbatim>\<open>"0"\<close> gives no size but a division by zero.
\<close>

theorem contract_size_negative_counterexample:
  "calc_contract_size_from_usdt (Fin (- 5)) [] (Fin 3000) = Inr (- 5)
   \<and> \<not> (0 :: int) \<le> - 5
   \<and> calc_contract_size_from_usdt (Fin 1000) [(''quanto_multiplier'', JStr ''0'')] (Fin 3000)
       = Inl ZeroDivisionError"
  by code_simp

text \<open>
  C9. The mark price has no influence on the contract size: two calls that differ
  in the mark price only give the same result (the same size or the same exception).
\<close>

theorem contract_size_ignores_mark_price:
  "calc_contract_size_from_usdt notional contract_info p1
   = calc_contract_size_from_usdt notional contract_info p2"
  by (simp add: calc_contract_size_from_usdt_def)

text \<open>
  C10 (as the code has it). A multiplier that parses to 0.0 makes the division
  raise \<^verbatim>\<open>ZeroDivisionError\<close>, whatever the notional; the text \<^verbatim>\<open>"0"\<close> is such a
  multiplier. With any other parsed multiplier that exception cannot occur, and the
  function returns a size exactly when the float quotient is finite.
\<close>

theorem contract_size_zero_divisor:
  "(lot_multiplier ci = Inr (Fin 0) \<longrightarrow>
      calc_contract_size_from_usdt n ci p = Inl ZeroDivisionError)
   \<and> lot_multiplier [(''quanto_multiplier'', JStr ''0'')] = Inr (Fin 0)
   \<and> calc_contract_size_from_usdt n [(''quanto_multiplier'', JStr ''0'')] p
       = Inl ZeroDivisionError
   \<and> (\<forall>m. lot_multiplier ci = Inr m \<and> m \<noteq> Fin 0 \<longrightarrow>
          calc_contract_size_from_usdt n ci p \<noteq> Inl ZeroDivisionError
          \<and> ((\<exists>sz. calc_contract_size_from_usdt n ci p = Inr sz)
               \<longleftrightarrow> (\<exists>q. float_div n m = Inr (Fin q))))"
  using calc_contract_size_zero_divisor[of ci n p]
    calc_contract_size_zero_divisor[OF lot_multiplier_zero, of n p]
    lot_multiplier_zero calc_contract_size_no_zero_division[of ci _ n p]
    calc_contract_size_returns_iff[of ci _ n p]
  by blast

theorem contract_size_zero_divisor_witness:
  "lot_multiplier [(''quanto_multiplier'', JStr ''0'')] = Inr (Fin 0)
   \<and> calc_contract_size_from_usdt (Fin 1000) [(''quanto_multiplier'', JStr ''0'')] (Fin 3000)
       = Inl ZeroDivisionError
   \<and> lot_multiplier [(''quanto_multiplier'', JStr ''10.0'')] = Inr (Fin 10)
   \<and> Fin 10 \<noteq> Fin 0
   \<and> calc_contract_size_from_usdt (Fin 250) [(''quanto_multiplier'', JStr ''10.0'')] (Fin 3000)
       \<noteq> Inl ZeroDivisionError
   \<and> ((\<exists>sz. calc_contract_size_from_usdt (Fin 250) [(''quanto_multiplier'', JStr ''10.0'')]
               (Fin 3000) = Inr sz)
        \<longleftrightarrow> (\<exists>q. float_div (Fin 250) (Fin 10) = Inr (Fin q)))"
proof -
  have h0: "lot_multiplier [(''quanto_multiplier'', JStr ''0'')] = Inr (Fin 0)"
    by (rule lot_multiplier_zero)
  have h1: "lot_multiplier [(''quanto_multiplier'', JStr ''10.0'')] = Inr (Fin 10)"
    by (rule lot_multiplier_10)
  have h2: "Fin 10 \<noteq> Fin 0" by simp
  from contract_size_zero_divisor[of "[(''quanto_multiplier'', JStr ''0'')]" "Fin 1000" "Fin 3000"]
    h0
  have a: "calc_contract_size_from_usdt (Fin 1000) [(''quanto_multiplier'', JStr ''0'')]
             (Fin 3000) = Inl ZeroDivisionError"
    by blast
  from contract_size_zero_divisor[of "[(''quanto_multiplier'', JStr ''10.0'')]" "Fin 250"
      "Fin 3000"] h1 h2
  have b: "calc_contract_size_from_usdt (Fin 250) [(''quanto_multiplier'', JStr ''10.0'')]
             (Fin 3000) \<noteq> Inl ZeroDivisionError
           \<and> ((\<exists>sz. calc_contract_size_from_usdt (Fin 250)
                       [(''quanto_multiplier'', JStr ''10.0'')] (Fin 3000) = Inr sz)
                \<longleftrightarrow> (\<exists>q. float_div (Fin 250) (Fin 10) = Inr (Fin q)))"
    by blast
  from h0 a h1 h2 b show ?thesis by blast
qed

text \<open>
  C10 as stated fails in its last part: with a parsed multiplier that is not zero
  the function may still not return. A multiplier text \<^verbatim>\<open>"nan"\<close> parses to NaN, and
  \<^verbatim>\<open>round\<close> of the NaN quotient raises \<^verbatim>\<open>ValueError\<close>; an infinite notional (the
  amount typed as \<^verbatim>\<open>inf\<close>) with the default multiplier raises \<^verbatim>\<open>OverflowError\<close>.
\<close>

theorem contract_size_not_total_counterexample:
  "lot_multiplier [(''quanto_multiplier'', JStr ''nan'')] = Inr NaN
   \<and> NaN \<noteq> Fin 0
   \<and> calc_contract_size_from_usdt (Fin 1000) [(''quanto_multiplier'', JStr ''nan'')] (Fin 3000)
       = Inl ValueError
   \<and> lot_multiplier [] = Inr (Fin 1)
   \<and> Fin 1 \<noteq> Fin 0
   \<and> calc_contract_size_from_usdt PInf [] (Fin 3000) = Inl OverflowError"
  by code_simp

section \<open>Properties of the offer selector\<close>

lemma in_window_iff: "in_window now d \<longleftrightarrow> 43200 \<le> d - now \<and> d - now \<le> 172800"
proof -
  have a: "(1 / 2) * (of_int one_day_sec :: rat) = of_int 43200"
    by (simp add: one_day_sec_def)
  have b: "2 * (of_int one_day_sec :: rat) = of_int 172800"
    by (simp add: one_day_sec_def)
  show ?thesis
    unfolding in_window_def a b of_int_le_iff by simp
qed

lemma map_of_setitem: "map_of (setitem p k v) = (map_of p)(k \<mapsto> v)"
  by (simp add: setitem_def update_conv')

lemma get_setitem_other: "k \<noteq> k' \<Longrightarrow> get (setitem p k' v) k = get p k"
  by (simp add: get_def get_default_def map_of_setitem)

lemma get_default_setitem_other:
  "k \<noteq> k' \<Longrightarrow> get_default (setitem p k' v) k d = get_default p k d"
  by (simp add: get_default_def map_of_setitem)

lemma key_apy_setitem: "key_apy (setitem p ''_apy'' (JFloat a)) = Inr a"
  by (simp add: key_apy_def subscript_def map_of_setitem)

lemma fields_match_setitem: "fields_match (setitem p ''_apy'' v) = fields_match p"
  by (simp add: fields_match_def get_setitem_other)

lemma eligible_setitem: "eligible now (setitem p ''_apy'' v) = eligible now p"
  by (simp add: eligible_def fields_match_setitem get_default_setitem_other)

lemma candidates_of_step:
  "candidates_of now (p # ps) =
     (if \<not> fields_match p then candidates_of now ps
      else case py_int (get_default p ''delivery_time'' (JInt 0)) of
             Inl e \<Rightarrow> Inl e
           | Inr delivery \<Rightarrow>
               if \<not> in_window now delivery then candidates_of now ps
               else case parsed_yield p of
                      Inl e \<Rightarrow> Inl e
                    | Inr apy \<Rightarrow>
                        (case candidates_of now ps of
                           Inl e \<Rightarrow> Inl e
                         | Inr cs \<Rightarrow> Inr (setitem p ''_apy'' (JFloat apy) # cs)))"
  unfolding parsed_yield_def by (simp add: fields_match_def)

lemma candidates_of_annotated:
  "candidates_of now plans = Inr cs \<Longrightarrow> list_all2 annotated (filter (eligible now) plans) cs"
proof (induction plans arbitrary: cs)
  case Nil
  then show ?case by simp
next
  case (Cons p ps)
  show ?case
  proof (cases "eligible now p")
    case True
    then obtain d where fm: "fields_match p"
      and d: "py_int (get_default p ''delivery_time'' (JInt 0)) = Inr d"
      and w: "in_window now d"
      by (auto simp: eligible_def split: sum.splits)
    from Cons.prems fm d w obtain a cs' where a: "parsed_yield p = Inr a"
      and cs': "candidates_of now ps = Inr cs'"
      and cs: "cs = setitem p ''_apy'' (JFloat a) # cs'"
      by (auto simp: candidates_of_step simp del: candidates_of.simps split: sum.splits)
    from a have "annotated p (setitem p ''_apy'' (JFloat a))"
      by (simp add: annotated_def)
    with Cons.IH[OF cs'] True cs show ?thesis by simp
  next
    case False
    with Cons.prems have "candidates_of now ps = Inr cs"
      by (auto simp: candidates_of_step eligible_def simp del: candidates_of.simps
               split: sum.splits if_splits)
    from Cons.IH[OF this] False show ?thesis by simp
  qed
qed

lemma candidates_of_readable:
  "(\<exists>cs. candidates_of now plans = Inr cs) \<longleftrightarrow> (\<forall>p\<in>set plans. readable now p)"
proof (induction plans)
  case Nil
  then show ?case by simp
next
  case (Cons p ps)
  show ?case
    using Cons.IH
    by (auto simp: candidates_of_step readable_def simp del: candidates_of.simps
             split: sum.splits if_splits)
qed


lemma float_gt_trans: "float_gt a b \<Longrightarrow> float_gt b c \<Longrightarrow> float_gt a c"
  by (cases a; cases b; cases c) auto

lemma max_loop_result:
  assumes "\<forall>x\<in>set xs. \<exists>k. key_apy x = Inr k" and "key_apy best = Inr bk"
  shows "\<exists>r kr. max_loop best bk xs = Inr r \<and> r \<in> set (best # xs) \<and> key_apy r = Inr kr
           \<and> (kr = bk \<or> float_gt kr bk)
           \<and> (\<forall>x\<in>set xs. \<forall>k. key_apy x = Inr k \<longrightarrow> \<not> float_gt k kr)"
  using assms
proof (induction xs arbitrary: best bk)
  case Nil
  then show ?case by simp
next
  case (Cons x xs)
  from Cons.prems(1) obtain k where k: "key_apy x = Inr k" by auto
  from Cons.prems(1) have rest: "\<forall>x\<in>set xs. \<exists>k. key_apy x = Inr k" by simp
  show ?case
  proof (cases "float_gt k bk")
    case True
    from Cons.IH[OF rest k] obtain r kr where r: "max_loop x k xs = Inr r"
      "r \<in> set (x # xs)" "key_apy r = Inr kr" "kr = k \<or> float_gt kr k"
      "\<forall>y\<in>set xs. \<forall>j. key_apy y = Inr j \<longrightarrow> \<not> float_gt j kr"
      by blast
    from r(4) True have gt: "float_gt kr bk" by (auto intro: float_gt_trans)
    have "\<not> float_gt k kr"
    proof
      assume "float_gt k kr"
      with r(4) have "float_gt k k" by (auto intro: float_gt_trans)
      then show False by (cases k) auto
    qed
    with r k True gt show ?thesis by auto
  next
    case False
    from Cons.IH[OF rest Cons.prems(2)] obtain r kr where r: "max_loop best bk xs = Inr r"
      "r \<in> set (best # xs)" "key_apy r = Inr kr" "kr = bk \<or> float_gt kr bk"
      "\<forall>y\<in>set xs. \<forall>j. key_apy y = Inr j \<longrightarrow> \<not> float_gt j kr"
      by blast
    have "\<not> float_gt k kr"
    proof
      assume "float_gt k kr"
      with r(4) have "float_gt k bk" by (auto intro: float_gt_trans)
      with False show False by simp
    qed
    with r k False show ?thesis by auto
  qed
qed

lemma max_by_apy_result:
  assumes "cs \<noteq> []" and "\<forall>x\<in>set cs. \<exists>k. key_apy x = Inr k"
  shows "\<exists>r kr. max_by_apy cs = Inr r \<and> r \<in> set cs \<and> key_apy r = Inr kr
           \<and> (\<forall>x\<in>set cs. \<forall>k. key_apy x = Inr k \<longrightarrow> \<not> float_gt k kr)"
proof -
  from assms(1) obtain x xs where cs: "cs = x # xs" by (cases cs) auto
  with assms(2) obtain k where k: "key_apy x = Inr k" by auto
  from assms(2) cs have rest: "\<forall>y\<in>set xs. \<exists>k. key_apy y = Inr k" by simp
  from max_loop_result[OF rest k] obtain r kr where r: "max_loop x k xs = Inr r"
      "r \<in> set (x # xs)" "key_apy r = Inr kr" "kr = k \<or> float_gt kr k"
      "\<forall>y\<in>set xs. \<forall>j. key_apy y = Inr j \<longrightarrow> \<not> float_gt j kr"
    by blast
  have "\<not> float_gt k kr"
  proof
    assume "float_gt k kr"
    with r(4) have "float_gt k k" by (auto intro: float_gt_trans)
    then show False by (cases k) auto
  qed
  with r k cs show ?thesis by (auto simp: max_by_apy_def)
qed

lemma annotated_key: "annotated p c \<Longrightarrow> \<exists>a. parsed_yield p = Inr a \<and> key_apy c = Inr a \<and> c = setitem p ''_apy'' (JFloat a)"
  by (auto simp: annotated_def key_apy_setitem split: sum.splits)

lemma list_all2_annotated_keys:
  "list_all2 annotated ps cs \<Longrightarrow> \<forall>c\<in>set cs. \<exists>k. key_apy c = Inr k"
  by (induction rule: list_all2_induct) (auto dest: annotated_key)

lemma list_all2_annotated_src:
  "list_all2 annotated ps cs \<Longrightarrow> c \<in> set cs \<Longrightarrow> \<exists>p\<in>set ps. annotated p c"
  by (induction rule: list_all2_induct) auto

lemma list_all2_annotated_img:
  "list_all2 annotated ps cs \<Longrightarrow> p \<in> set ps \<Longrightarrow> \<exists>c\<in>set cs. annotated p c"
  by (induction rule: list_all2_induct) auto

lemma find_best_returns:
  assumes "\<forall>p\<in>set plans. readable now p" and "\<exists>p\<in>set plans. eligible now p"
  shows "\<exists>best p a. find_best_eth_dual_one_day (Inr plans) now = Inr best
           \<and> p \<in> set plans \<and> eligible now p \<and> parsed_yield p = Inr a
           \<and> best = setitem p ''_apy'' (JFloat a)
           \<and> (\<forall>q\<in>set plans. \<forall>b. eligible now q \<and> parsed_yield q = Inr b \<longrightarrow> \<not> float_gt b a)"
proof -
  from assms(1) obtain cs where cs: "candidates_of now plans = Inr cs"
    using candidates_of_readable by blast
  note ann = candidates_of_annotated[OF cs]
  from assms(2) have "filter (eligible now) plans \<noteq> []"
    by (auto simp: filter_empty_conv)
  with ann have ne: "cs \<noteq> []" by (auto simp: list_all2_Nil2)
  from max_by_apy_result[OF ne list_all2_annotated_keys[OF ann]]
  obtain r kr where r: "max_by_apy cs = Inr r" "r \<in> set cs" "key_apy r = Inr kr"
    "\<forall>x\<in>set cs. \<forall>k. key_apy x = Inr k \<longrightarrow> \<not> float_gt k kr"
    by blast
  from list_all2_annotated_src[OF ann r(2)] obtain p where p: "p \<in> set (filter (eligible now) plans)"
    "annotated p r" by blast
  from annotated_key[OF p(2)] r(3) have pk: "parsed_yield p = Inr kr"
    "r = setitem p ''_apy'' (JFloat kr)" by auto
  have maxi: "\<not> float_gt b kr" if q: "q \<in> set plans" "eligible now q" "parsed_yield q = Inr b" for q b
  proof -
    from q have "q \<in> set (filter (eligible now) plans)" by simp
    from list_all2_annotated_img[OF ann this] obtain c where c: "c \<in> set cs" "annotated q c"
      by blast
    from annotated_key[OF c(2)] q(3) have "key_apy c = Inr b" by auto
    with r(4) c(1) show ?thesis by blast
  qed
  have "find_best_eth_dual_one_day (Inr plans) now = Inr r"
    using cs ne r(1) by (simp add: find_best_eth_dual_one_day_def)
  with p pk maxi show ?thesis by auto
qed

lemma find_best_sound:
  assumes "find_best_eth_dual_one_day (Inr plans) now = Inr best"
  shows "\<exists>p a. p \<in> set plans \<and> eligible now p \<and> parsed_yield p = Inr a
           \<and> best = setitem p ''_apy'' (JFloat a)"
proof -
  from assms obtain cs where cs: "candidates_of now plans = Inr cs" and ne: "cs \<noteq> []"
    and m: "max_by_apy cs = Inr best"
    by (auto simp: find_best_eth_dual_one_day_def split: sum.splits if_splits)
  note ann = candidates_of_annotated[OF cs]
  from max_by_apy_result[OF ne list_all2_annotated_keys[OF ann]] m
  have "best \<in> set cs" by auto
  from list_all2_annotated_src[OF ann this] obtain p where p: "p \<in> set (filter (eligible now) plans)"
    "annotated p best" by blast
  with annotated_key[OF p(2)] show ?thesis by auto
qed

lemma candidates_of_error:
  "candidates_of now plans = Inl e \<Longrightarrow> e \<in> {ValueError, TypeError, OverflowError}"
proof (induction plans)
  case Nil
  then show ?case by simp
next
  case (Cons p ps)
  have i: "py_int v = Inl e' \<Longrightarrow> e' \<in> {ValueError, TypeError, OverflowError}" for v e'
    by (auto simp: py_int_def split: json.splits pyfloat.splits option.splits)
  have f: "py_float v = Inl e' \<Longrightarrow> e' \<in> {ValueError, TypeError, OverflowError}" for v e'
    by (auto simp: py_float_def float_of_int_def split: json.splits pyfloat.splits option.splits)
  have y: "parsed_yield p = Inl e' \<Longrightarrow> e' \<in> {ValueError, TypeError, OverflowError}" for e'
    using f[of "get_default p ''apy_display'' (JStr ''0'')"]
    by (auto simp: parsed_yield_def float_or_def split: sum.splits error.splits)
  from Cons show ?case
    using i y
    by (auto simp: candidates_of_step simp del: candidates_of.simps
             split: sum.splits if_splits)
qed

lemma find_best_no_eligible_iff:
  "find_best_eth_dual_one_day (Inr plans) now = Inl NoEligibleOffer \<longleftrightarrow>
   (\<forall>p\<in>set plans. readable now p) \<and> (\<forall>p\<in>set plans. \<not> eligible now p)"
proof
  assume a: "find_best_eth_dual_one_day (Inr plans) now = Inl NoEligibleOffer"
  have "\<exists>cs. candidates_of now plans = Inr cs"
  proof (cases "candidates_of now plans")
    case (Inl e)
    with a candidates_of_error[OF Inl] show ?thesis
      by (auto simp: find_best_eth_dual_one_day_def)
  next
    case (Inr cs)
    then show ?thesis by blast
  qed
  then obtain cs where cs: "candidates_of now plans = Inr cs" ..
  then have rd: "\<forall>p\<in>set plans. readable now p" using candidates_of_readable by blast
  note ann = candidates_of_annotated[OF cs]
  have "cs = []"
  proof (rule ccontr)
    assume ne: "cs \<noteq> []"
    from max_by_apy_result[OF ne list_all2_annotated_keys[OF ann]] a cs ne
    show False by (auto simp: find_best_eth_dual_one_day_def)
  qed
  with ann have "filter (eligible now) plans = []" by simp
  then have "\<forall>p\<in>set plans. \<not> eligible now p" by (simp add: filter_empty_conv)
  with rd show "(\<forall>p\<in>set plans. readable now p) \<and> (\<forall>p\<in>set plans. \<not> eligible now p)" ..
next
  assume b: "(\<forall>p\<in>set plans. readable now p) \<and> (\<forall>p\<in>set plans. \<not> eligible now p)"
  then obtain cs where cs: "candidates_of now plans = Inr cs"
    using candidates_of_readable by blast
  from b have "filter (eligible now) plans = []" by (simp add: filter_empty_conv)
  with candidates_of_annotated[OF cs] have "cs = []" by simp
  with cs show "find_best_eth_dual_one_day (Inr plans) now = Inl NoEligibleOffer"
    by (simp add: find_best_eth_dual_one_day_def)
qed

lemma find_best_single:
  assumes "eligible now q" and "parsed_yield q = Inr y"
  shows "find_best_eth_dual_one_day (Inr [q]) now = Inr (setitem q ''_apy'' (JFloat y))"
proof -
  from assms(1) obtain d where "fields_match q"
    "py_int (get_default q ''delivery_time'' (JInt 0)) = Inr d" "in_window now d"
    by (auto simp: eligible_def split: sum.splits)
  with assms(2) have "candidates_of now [q] = Inr [setitem q ''_apy'' (JFloat y)]"
    by (simp add: candidates_of_step del: candidates_of.simps(2))
  then show ?thesis
    by (simp add: find_best_eth_dual_one_day_def max_by_apy_def key_apy_setitem)
qed

lemma float_of_str_0: "float_of_str ''0'' = Some (Fin 0)"
  by code_simp

lemma parsed_yield_missing:
  "map_of q ''apy_display'' = None \<Longrightarrow> parsed_yield q = Inr (Fin 0)"
  by (simp add: parsed_yield_def get_default_def float_or_def py_float_def float_of_str_0)

lemma parsed_yield_malformed:
  "map_of q ''apy_display'' = Some (JStr s) \<Longrightarrow> float_of_str s = None \<Longrightarrow>
   parsed_yield q = Inr (Fin 0)"
  by (simp add: parsed_yield_def get_default_def float_or_def py_float_def)

lemma best_at_23_hours:
  "find_best_eth_dual_one_day (Inr [sample_offer (JInt 1700082800) (JStr ''9.2'')]) 1700000000
   = Inr (setitem (sample_offer (JInt 1700082800) (JStr ''9.2'')) ''_apy''
            (JFloat (to_double (92 / 10))))"
  by code_simp

lemma best_at_half_day:
  "find_best_eth_dual_one_day (Inr [sample_offer (JInt 1700043200) (JStr ''9.2'')]) 1700000000
   = Inr (setitem (sample_offer (JInt 1700043200) (JStr ''9.2'')) ''_apy''
            (JFloat (to_double (92 / 10))))"
  by code_simp

lemma best_at_two_days:
  "find_best_eth_dual_one_day (Inr [sample_offer (JInt 1700172800) (JStr ''9.2'')]) 1700000000
   = Inr (setitem (sample_offer (JInt 1700172800) (JStr ''9.2'')) ''_apy''
            (JFloat (to_double (92 / 10))))"
  by code_simp

lemma best_of_85_and_92:
  "find_best_eth_dual_one_day
     (Inr [sample_offer (JInt 1700082800) (JStr ''8.5''),
           sample_offer (JInt 1700090000) (JStr ''9.2'')]) 1700000000
   = Inr (setitem (sample_offer (JInt 1700090000) (JStr ''9.2'')) ''_apy''
            (JFloat (to_double (92 / 10))))"
  by code_simp

lemma best_of_92_and_85:
  "find_best_eth_dual_one_day
     (Inr [sample_offer (JInt 1700090000) (JStr ''9.2''),
           sample_offer (JInt 1700082800) (JStr ''8.5'')]) 1700000000
   = Inr (setitem (sample_offer (JInt 1700090000) (JStr ''9.2'')) ''_apy''
            (JFloat (to_double (92 / 10))))"
  by code_simp

lemma best_of_malformed_and_92:
  "find_best_eth_dual_one_day
     (Inr [sample_offer (JInt 1700082800) (JStr ''n/a''),
           sample_offer (JInt 1700090000) (JStr ''9.2'')]) 1700000000
   = Inr (setitem (sample_offer (JInt 1700090000) (JStr ''9.2'')) ''_apy''
            (JFloat (to_double (92 / 10))))"
  by code_simp

lemma best_of_malformed_alone:
  "find_best_eth_dual_one_day (Inr [sample_offer (JInt 1700082800) (JStr ''n/a'')]) 1700000000
   = Inr (setitem (sample_offer (JInt 1700082800) (JStr ''n/a'')) ''_apy'' (JFloat (Fin 0)))"
  by code_simp

lemma sample_readable:
  "\<forall>p\<in>set [sample_offer (JInt 1700082800) (JStr ''8.5''),
             sample_offer (JInt 1700090000) (JStr ''9.2'')]. readable 1700000000 p"
  by code_simp

lemma sample_eligible:
  "\<exists>p\<in>set [sample_offer (JInt 1700082800) (JStr ''8.5''),
             sample_offer (JInt 1700090000) (JStr ''9.2'')]. eligible 1700000000 p"
  by code_simp

lemma sample_92_eligible:
  "eligible 1700000000 (sample_offer (JInt 1700090000) (JStr ''9.2''))"
  by code_simp

lemma sample_late_not_eligible:
  "(\<forall>p\<in>set [sample_offer (JInt 1700172801) (JStr ''9.2'')]. readable 1700000000 p)
   \<and> (\<forall>p\<in>set [sample_offer (JInt 1700172801) (JStr ''9.2'')]. \<not> eligible 1700000000 p)"
  by code_simp

text \<open>
  C1 (as the code has it). Every offer the selector returns has the investment
  currency USDT, the exercise currency ETH, the kind \<^verbatim>\<open>put\<close> and the status
  \<^verbatim>\<open>ONGOING\<close>, and its delivery time lies from half a day (43200 s) to two days
  (172800 s) after \<open>now\<close>, both ends included. It is one of the listed offers, itself
  eligible, with its yield added under \<^verbatim>\<open>_apy\<close>.
\<close>

theorem find_best_satisfies_filter:
  assumes "find_best_eth_dual_one_day (Inr plans) now = Inr best"
  shows "get best ''invest_currency'' = JStr ''USDT''
         \<and> get best ''exercise_currency'' = JStr ''ETH''
         \<and> get best ''type'' = JStr ''put''
         \<and> get best ''status'' = JStr ''ONGOING''
         \<and> (\<exists>d. py_int (get_default best ''delivery_time'' (JInt 0)) = Inr d
                \<and> 43200 \<le> d - now \<and> d - now \<le> 172800)
         \<and> (\<exists>p\<in>set plans. \<exists>a. best = setitem p ''_apy'' (JFloat a) \<and> eligible now p)"
proof -
  from find_best_sound[OF assms] obtain p a where p: "p \<in> set plans" "eligible now p"
    "best = setitem p ''_apy'' (JFloat a)"
    by blast
  from p(2,3) have e: "eligible now best" by (simp add: eligible_setitem)
  then have fm: "fields_match best" by (simp add: eligible_def)
  from e obtain d where d: "py_int (get_default best ''delivery_time'' (JInt 0)) = Inr d"
    "in_window now d"
    by (auto simp: eligible_def split: sum.splits)
  from d(2) have "43200 \<le> d - now \<and> d - now \<le> 172800" by (simp add: in_window_iff)
  with d(1) have win: "\<exists>d. py_int (get_default best ''delivery_time'' (JInt 0)) = Inr d
      \<and> 43200 \<le> d - now \<and> d - now \<le> 172800"
    by blast
  from p have src: "\<exists>p\<in>set plans. \<exists>a. best = setitem p ''_apy'' (JFloat a) \<and> eligible now p"
    by blast
  from fm win src show ?thesis by (simp add: fields_match_def)
qed

theorem find_best_satisfies_filter_witness:
  "find_best_eth_dual_one_day (Inr [sample_offer (JInt 1700082800) (JStr ''9.2'')]) 1700000000
     = Inr (setitem (sample_offer (JInt 1700082800) (JStr ''9.2'')) ''_apy''
              (JFloat (to_double (92 / 10))))
   \<and> get (setitem (sample_offer (JInt 1700082800) (JStr ''9.2'')) ''_apy''
              (JFloat (to_double (92 / 10)))) ''status'' = JStr ''ONGOING''
   \<and> (\<exists>d. py_int (get_default (setitem (sample_offer (JInt 1700082800) (JStr ''9.2'')) ''_apy''
              (JFloat (to_double (92 / 10)))) ''delivery_time'' (JInt 0)) = Inr d
          \<and> 43200 \<le> d - 1700000000 \<and> d - 1700000000 \<le> 172800)"
  using find_best_satisfies_filter[OF best_at_23_hours] best_at_23_hours by blast

text \<open>
  C1 as stated fails: the window is not half-open. An offer delivered exactly half
  a day after \<open>now\<close> is returned, and so is one delivered exactly two days after.
\<close>

theorem find_best_window_closed_counterexample:
  "find_best_eth_dual_one_day (Inr [sample_offer (JInt 1700043200) (JStr ''9.2'')]) 1700000000
     = Inr (setitem (sample_offer (JInt 1700043200) (JStr ''9.2'')) ''_apy''
              (JFloat (to_double (92 / 10))))
   \<and> 1700043200 - 1700000000 = (43200 :: int)
   \<and> find_best_eth_dual_one_day (Inr [sample_offer (JInt 1700172800) (JStr ''9.2'')]) 1700000000
     = Inr (setitem (sample_offer (JInt 1700172800) (JStr ''9.2'')) ''_apy''
              (JFloat (to_double (92 / 10))))
   \<and> 1700172800 - 1700000000 = (172800 :: int)"
  using best_at_half_day best_at_two_days by simp

lemma sample_malformed_facts:
  "map_of (sample_offer (JInt 1700082800) (JStr ''n/a'')) ''apy_display'' = Some (JStr ''n/a'')
   \<and> float_of_str ''n/a'' = None
   \<and> eligible 1700000000 (sample_offer (JInt 1700082800) (JStr ''n/a''))"
  by code_simp

lemma sample_missing_facts:
  "map_of [(''id'', JInt 7), (''invest_currency'', JStr ''USDT''),
           (''exercise_currency'', JStr ''ETH''), (''type'', JStr ''put''),
           (''status'', JStr ''ONGOING''), (''delivery_time'', JInt 1700082800)]
     ''apy_display'' = None
   \<and> eligible 1700000000
         [(''id'', JInt 7), (''invest_currency'', JStr ''USDT''),
          (''exercise_currency'', JStr ''ETH''), (''type'', JStr ''put''),
          (''status'', JStr ''ONGOING''), (''delivery_time'', JInt 1700082800)]"
  by code_simp

text \<open>
  C2 (as the code has it). When the selector can read every offer and at least one
  is eligible, it returns an eligible offer of the list, and no eligible offer has a
  greater yield (so every eligible yield is at most the returned one, NaN apart). A
  yield that is absent, or text that \<^verbatim>\<open>float\<close> rejects, is read as 0, and the offer
  stays eligible: alone, it is the one returned, and beside an offer with the yield
  9.2 it loses. Of two eligible offers with the yields 8.5 and 9.2, the second is
  returned, in either order.
\<close>

theorem find_best_maximal_yield:
  "((\<forall>p\<in>set plans. readable now p) \<and> (\<exists>p\<in>set plans. eligible now p) \<longrightarrow>
      (\<exists>best p a. find_best_eth_dual_one_day (Inr plans) now = Inr best
            \<and> p \<in> set plans \<and> eligible now p \<and> parsed_yield p = Inr a
            \<and> best = setitem p ''_apy'' (JFloat a)
            \<and> (\<forall>q\<in>set plans. \<forall>b. eligible now q \<and> parsed_yield q = Inr b \<longrightarrow>
                   \<not> float_gt b a \<and> (a \<noteq> NaN \<and> b \<noteq> NaN \<longrightarrow> float_le b a))))
   \<and> (\<forall>q. map_of q ''apy_display'' = None \<longrightarrow> parsed_yield q = Inr (Fin 0))
   \<and> (\<forall>q s. map_of q ''apy_display'' = Some (JStr s) \<and> float_of_str s = None \<longrightarrow>
          parsed_yield q = Inr (Fin 0))
   \<and> (\<forall>q. eligible now q \<and> parsed_yield q = Inr (Fin 0) \<longrightarrow>
          find_best_eth_dual_one_day (Inr [q]) now
            = Inr (setitem q ''_apy'' (JFloat (Fin 0))))
   \<and> find_best_eth_dual_one_day
         (Inr [sample_offer (JInt 1700082800) (JStr ''8.5''),
               sample_offer (JInt 1700090000) (JStr ''9.2'')]) 1700000000
       = Inr (setitem (sample_offer (JInt 1700090000) (JStr ''9.2'')) ''_apy''
                (JFloat (to_double (92 / 10))))
   \<and> find_best_eth_dual_one_day
         (Inr [sample_offer (JInt 1700090000) (JStr ''9.2''),
               sample_offer (JInt 1700082800) (JStr ''8.5'')]) 1700000000
       = Inr (setitem (sample_offer (JInt 1700090000) (JStr ''9.2'')) ''_apy''
                (JFloat (to_double (92 / 10))))
   \<and> find_best_eth_dual_one_day
         (Inr [sample_offer (JInt 1700082800) (JStr ''n/a''),
               sample_offer (JInt 1700090000) (JStr ''9.2'')]) 1700000000
       = Inr (setitem (sample_offer (JInt 1700090000) (JStr ''9.2'')) ''_apy''
                (JFloat (to_double (92 / 10))))
   \<and> find_best_eth_dual_one_day
         (Inr [sample_offer (JInt 1700082800) (JStr ''n/a'')]) 1700000000
       = Inr (setitem (sample_offer (JInt 1700082800) (JStr ''n/a'')) ''_apy''
                (JFloat (Fin 0)))"
proof -
  have first: "\<exists>best p a. find_best_eth_dual_one_day (Inr plans) now = Inr best
            \<and> p \<in> set plans \<and> eligible now p \<and> parsed_yield p = Inr a
            \<and> best = setitem p ''_apy'' (JFloat a)
            \<and> (\<forall>q\<in>set plans. \<forall>b. eligible now q \<and> parsed_yield q = Inr b \<longrightarrow>
                   \<not> float_gt b a \<and> (a \<noteq> NaN \<and> b \<noteq> NaN \<longrightarrow> float_le b a))"
    if h: "(\<forall>p\<in>set plans. readable now p) \<and> (\<exists>p\<in>set plans. eligible now p)"
  proof -
    from h have h1: "\<forall>p\<in>set plans. readable now p" and h2: "\<exists>p\<in>set plans. eligible now p"
      by blast+
    from find_best_returns[OF h1 h2] obtain best p a where
      r: "find_best_eth_dual_one_day (Inr plans) now = Inr best" "p \<in> set plans"
        "eligible now p" "parsed_yield p = Inr a" "best = setitem p ''_apy'' (JFloat a)"
        "\<forall>q\<in>set plans. \<forall>b. eligible now q \<and> parsed_yield q = Inr b \<longrightarrow> \<not> float_gt b a"
      by blast
    from r(6) have
      "\<forall>q\<in>set plans. \<forall>b. eligible now q \<and> parsed_yield q = Inr b \<longrightarrow>
          \<not> float_gt b a \<and> (a \<noteq> NaN \<and> b \<noteq> NaN \<longrightarrow> float_le b a)"
      by (simp add: float_le_def)
    with r show ?thesis by blast
  qed
  have single: "\<forall>q. eligible now q \<and> parsed_yield q = Inr (Fin 0) \<longrightarrow>
      find_best_eth_dual_one_day (Inr [q]) now = Inr (setitem q ''_apy'' (JFloat (Fin 0)))"
    using find_best_single by blast
  have missing: "\<forall>q. map_of q ''apy_display'' = None \<longrightarrow> parsed_yield q = Inr (Fin 0)"
    using parsed_yield_missing by blast
  have malformed: "\<forall>q s. map_of q ''apy_display'' = Some (JStr s) \<and> float_of_str s = None \<longrightarrow>
      parsed_yield q = Inr (Fin 0)"
    using parsed_yield_malformed by blast
  from first missing malformed single best_of_85_and_92 best_of_92_and_85
    best_of_malformed_and_92 best_of_malformed_alone
  show ?thesis by (intro conjI impI)
qed

text \<open>
  The theorem at work: on the two offers with the yields 8.5 and 9.2, on an
  eligible offer whose yield is not a number, and on one without a yield.
\<close>

theorem find_best_maximal_yield_witness:
  "readable 1700000000 (sample_offer (JInt 1700082800) (JStr ''8.5''))
   \<and> readable 1700000000 (sample_offer (JInt 1700090000) (JStr ''9.2''))
   \<and> eligible 1700000000 (sample_offer (JInt 1700090000) (JStr ''9.2''))
   \<and> (\<exists>best p a. find_best_eth_dual_one_day
                    (Inr [sample_offer (JInt 1700082800) (JStr ''8.5''),
                          sample_offer (JInt 1700090000) (JStr ''9.2'')]) 1700000000 = Inr best
         \<and> p \<in> set [sample_offer (JInt 1700082800) (JStr ''8.5''),
                     sample_offer (JInt 1700090000) (JStr ''9.2'')]
         \<and> eligible 1700000000 p \<and> parsed_yield p = Inr a
         \<and> best = setitem p ''_apy'' (JFloat a))
   \<and> map_of (sample_offer (JInt 1700082800) (JStr ''n/a'')) ''apy_display'' = Some (JStr ''n/a'')
   \<and> float_of_str ''n/a'' = None
   \<and> eligible 1700000000 (sample_offer (JInt 1700082800) (JStr ''n/a''))
   \<and> parsed_yield (sample_offer (JInt 1700082800) (JStr ''n/a'')) = Inr (Fin 0)
   \<and> find_best_eth_dual_one_day (Inr [sample_offer (JInt 1700082800) (JStr ''n/a'')]) 1700000000
       = Inr (setitem (sample_offer (JInt 1700082800) (JStr ''n/a'')) ''_apy'' (JFloat (Fin 0)))
   \<and> map_of [(''id'', JInt 7), (''invest_currency'', JStr ''USDT''),
             (''exercise_currency'', JStr ''ETH''), (''type'', JStr ''put''),
             (''status'', JStr ''ONGOING''), (''delivery_time'', JInt 1700082800)]
        ''apy_display'' = None
   \<and> parsed_yield [(''id'', JInt 7), (''invest_currency'', JStr ''USDT''),
             (''exercise_currency'', JStr ''ETH''), (''type'', JStr ''put''),
             (''status'', JStr ''ONGOING''), (''delivery_time'', JInt 1700082800)]
       = Inr (Fin 0)"
proof -
  note t = find_best_maximal_yield[of "[sample_offer (JInt 1700082800) (JStr ''8.5''),
      sample_offer (JInt 1700090000) (JStr ''9.2'')]" 1700000000]
  note u = find_best_maximal_yield[of "[]" 1700000000]
  from t sample_readable sample_eligible
  have a: "\<exists>best p a. find_best_eth_dual_one_day
                    (Inr [sample_offer (JInt 1700082800) (JStr ''8.5''),
                          sample_offer (JInt 1700090000) (JStr ''9.2'')]) 1700000000 = Inr best
         \<and> p \<in> set [sample_offer (JInt 1700082800) (JStr ''8.5''),
                     sample_offer (JInt 1700090000) (JStr ''9.2'')]
         \<and> eligible 1700000000 p \<and> parsed_yield p = Inr a
         \<and> best = setitem p ''_apy'' (JFloat a)"
    by blast
  from u sample_malformed_facts
  have b: "parsed_yield (sample_offer (JInt 1700082800) (JStr ''n/a'')) = Inr (Fin 0)"
    by blast
  from u b sample_malformed_facts
  have c: "find_best_eth_dual_one_day (Inr [sample_offer (JInt 1700082800) (JStr ''n/a'')])
             1700000000
       = Inr (setitem (sample_offer (JInt 1700082800) (JStr ''n/a'')) ''_apy'' (JFloat (Fin 0)))"
    by blast
  from u sample_missing_facts
  have d: "parsed_yield [(''id'', JInt 7), (''invest_currency'', JStr ''USDT''),
             (''exercise_currency'', JStr ''ETH''), (''type'', JStr ''put''),
             (''status'', JStr ''ONGOING''), (''delivery_time'', JInt 1700082800)]
       = Inr (Fin 0)"
    by blast
  from sample_readable have r: "readable 1700000000 (sample_offer (JInt 1700082800) (JStr ''8.5''))"
    "readable 1700000000 (sample_offer (JInt 1700090000) (JStr ''9.2''))"
    by simp_all
  from r sample_92_eligible a sample_malformed_facts b c sample_missing_facts d
  show ?thesis by (intro conjI) blast+
qed

text \<open>
  C2 as stated fails. With an eligible offer at 9.2 and, after it, an offer whose
  four fields match but whose delivery time is not a number, the selector raises
  \<^verbatim>\<open>ValueError\<close> and returns no offer. The yield text \<^verbatim>\<open>"nan"\<close> is not read as 0 but as
  NaN, and the eligible offer listed first with it is returned although an eligible
  offer with the yield 9.2 follows: the yield returned is not the largest.
\<close>

theorem find_best_yield_counterexample:
  "eligible 1700000000 (sample_offer (JInt 1700090000) (JStr ''9.2''))
   \<and> find_best_eth_dual_one_day
         (Inr [sample_offer (JInt 1700090000) (JStr ''9.2''),
               sample_offer (JStr ''tomorrow'') (JStr ''8.5'')]) 1700000000
       = Inl ValueError
   \<and> eligible 1700000000 (sample_offer (JInt 1700082800) (JStr ''nan''))
   \<and> parsed_yield (sample_offer (JInt 1700082800) (JStr ''nan'')) = Inr NaN
   \<and> parsed_yield (sample_offer (JInt 1700090000) (JStr ''9.2'')) = Inr (to_double (92 / 10))
   \<and> \<not> float_le (to_double (92 / 10)) NaN
   \<and> find_best_eth_dual_one_day
         (Inr [sample_offer (JInt 1700082800) (JStr ''nan''),
               sample_offer (JInt 1700090000) (JStr ''9.2'')]) 1700000000
       = Inr (setitem (sample_offer (JInt 1700082800) (JStr ''nan'')) ''_apy'' (JFloat NaN))"
  by code_simp

text \<open>
  C6 (as the code has it). The selector fails with the no-eligible-offer error
  exactly when it can read every offer and none is eligible. When it can read every
  offer and one is eligible it returns an offer, and it never returns one when none
  is eligible.
\<close>

theorem find_best_no_eligible_offer:
  "(find_best_eth_dual_one_day (Inr plans) now = Inl NoEligibleOffer \<longleftrightarrow>
      (\<forall>p\<in>set plans. readable now p) \<and> (\<forall>p\<in>set plans. \<not> eligible now p))
   \<and> ((\<forall>p\<in>set plans. readable now p) \<and> (\<exists>p\<in>set plans. eligible now p) \<longrightarrow>
        (\<exists>best. find_best_eth_dual_one_day (Inr plans) now = Inr best))
   \<and> (\<forall>best. find_best_eth_dual_one_day (Inr plans) now = Inr best \<longrightarrow>
          (\<exists>p\<in>set plans. eligible now p))"
proof (intro conjI)
  show "find_best_eth_dual_one_day (Inr plans) now = Inl NoEligibleOffer \<longleftrightarrow>
      (\<forall>p\<in>set plans. readable now p) \<and> (\<forall>p\<in>set plans. \<not> eligible now p)"
    by (rule find_best_no_eligible_iff)
  show "(\<forall>p\<in>set plans. readable now p) \<and> (\<exists>p\<in>set plans. eligible now p) \<longrightarrow>
        (\<exists>best. find_best_eth_dual_one_day (Inr plans) now = Inr best)"
    using find_best_returns[of plans now] by blast
  show "\<forall>best. find_best_eth_dual_one_day (Inr plans) now = Inr best \<longrightarrow>
          (\<exists>p\<in>set plans. eligible now p)"
    using find_best_sound[of plans now] by blast
qed

theorem find_best_no_eligible_offer_witness:
  "readable 1700000000 (sample_offer (JInt 1700172801) (JStr ''9.2''))
   \<and> \<not> eligible 1700000000 (sample_offer (JInt 1700172801) (JStr ''9.2''))
   \<and> find_best_eth_dual_one_day (Inr [sample_offer (JInt 1700172801) (JStr ''9.2'')]) 1700000000
       = Inl NoEligibleOffer
   \<and> readable 1700000000 (sample_offer (JInt 1700082800) (JStr ''8.5''))
   \<and> readable 1700000000 (sample_offer (JInt 1700090000) (JStr ''9.2''))
   \<and> eligible 1700000000 (sample_offer (JInt 1700090000) (JStr ''9.2''))
   \<and> (\<exists>best. find_best_eth_dual_one_day
                (Inr [sample_offer (JInt 1700082800) (JStr ''8.5''),
                      sample_offer (JInt 1700090000) (JStr ''9.2'')]) 1700000000 = Inr best)"
proof -
  note t = find_best_no_eligible_offer[of "[sample_offer (JInt 1700172801) (JStr ''9.2'')]"
      1700000000]
  note u = find_best_no_eligible_offer[of "[sample_offer (JInt 1700082800) (JStr ''8.5''),
      sample_offer (JInt 1700090000) (JStr ''9.2'')]" 1700000000]
  from t sample_late_not_eligible
  have a: "find_best_eth_dual_one_day (Inr [sample_offer (JInt 1700172801) (JStr ''9.2'')])
             1700000000 = Inl NoEligibleOffer"
    by blast
  from u sample_readable sample_eligible
  have b: "\<exists>best. find_best_eth_dual_one_day
                (Inr [sample_offer (JInt 1700082800) (JStr ''8.5''),
                      sample_offer (JInt 1700090000) (JStr ''9.2'')]) 1700000000 = Inr best"
    by blast
  from sample_late_not_eligible
  have l: "readable 1700000000 (sample_offer (JInt 1700172801) (JStr ''9.2''))"
    "\<not> eligible 1700000000 (sample_offer (JInt 1700172801) (JStr ''9.2''))"
    by simp_all
  from sample_readable have r: "readable 1700000000 (sample_offer (JInt 1700082800) (JStr ''8.5''))"
    "readable 1700000000 (sample_offer (JInt 1700090000) (JStr ''9.2''))"
    by simp_all
  from l a r sample_92_eligible b show ?thesis by (intro conjI) blast+
qed

text \<open>
  C6 as stated fails. With an eligible offer listed first and, after it, an offer
  whose four fields match but whose delivery time is a date text, the selector
  raises \<^verbatim>\<open>ValueError\<close>: an offer passes the filter and none is returned. Alone, the
  second offer does not pass the filter, and the error is not the no-eligible-offer one.
\<close>

theorem find_best_unreadable_counterexample:
  "eligible 1700000000 (sample_offer (JInt 1700090000) (JStr ''9.2''))
   \<and> find_best_eth_dual_one_day
         (Inr [sample_offer (JInt 1700090000) (JStr ''9.2''),
               sample_offer (JStr ''2023-11-15T00:00:00Z'') (JStr ''8.5'')]) 1700000000
       = Inl ValueError
   \<and> \<not> eligible 1700000000 (sample_offer (JStr ''2023-11-15T00:00:00Z'') (JStr ''8.5''))
   \<and> find_best_eth_dual_one_day
         (Inr [sample_offer (JStr ''2023-11-15T00:00:00Z'') (JStr ''8.5'')]) 1700000000
       = Inl ValueError"
  by code_simp

section \<open>Properties of the settlement monitor\<close>

















section \<open>Properties of the correlation tag\<close>

lemma int_of_digits_snoc: "int_of_digits (ds @ [c]) = 10 * int_of_digits ds + digit_val c"
  by (simp add: int_of_digits_def)

lemma of_char_digit: "(d :: nat) < 10 \<Longrightarrow> (of_char (char_of (48 + d)) :: int) = 48 + int d"
proof -
  assume d: "d < 10"
  have "(of_char (char_of (48 + d)) :: int) = int (of_char (char_of (48 + d)))"
    by (rule of_nat_of_char[symmetric])
  also have "\<dots> = int (48 + d)" using d by simp
  finally show ?thesis by simp
qed

lemma digit_val_char: "(d :: nat) < 10 \<Longrightarrow> digit_val (char_of (48 + d)) = int d"
  by (simp add: digit_val_def of_char_digit)

lemma is_digit_char: "(d :: nat) < 10 \<Longrightarrow> is_digit (char_of (48 + d))"
  by (simp add: is_digit_def of_char_digit)

lemma int_of_digits_str_nat: "int_of_digits (str_nat n) = int n"
proof (induction n rule: str_nat.induct)
  case (1 n)
  show ?case
  proof (cases "n < 10")
    case True
    then show ?thesis
      by (subst str_nat.simps) (simp add: int_of_digits_def digit_val_char)
  next
    case False
    with 1 have "int_of_digits (str_nat (n div 10)) = int (n div 10)" by simp
    with False show ?thesis
      by (subst str_nat.simps) (simp add: int_of_digits_snoc digit_val_char zdiv_int zmod_int)
  qed
qed

lemma str_nat_digits: "str_nat n \<noteq> [] \<and> list_all is_digit (str_nat n)"
proof (induction n rule: str_nat.induct)
  case (1 n)
  show ?case
  proof (cases "n < 10")
    case True
    then show ?thesis
      by (subst (1 2) str_nat.simps) (simp add: is_digit_char)
  next
    case False
    with 1 have "list_all is_digit (str_nat (n div 10))" by simp
    with False show ?thesis
      by (subst (1 2) str_nat.simps) (simp add: is_digit_char)
  qed
qed

lemma str_nat_inj: "str_nat m = str_nat n \<longleftrightarrow> m = n"
  by (metis int_of_digits_str_nat of_nat_eq_iff)

lemma str_nat_no_minus: "str_nat n \<noteq> CHR ''-'' # cs" "CHR ''-'' # cs \<noteq> str_nat n"
proof -
  show "str_nat n \<noteq> CHR ''-'' # cs"
  proof
    assume "str_nat n = CHR ''-'' # cs"
    with str_nat_digits[of n] have "is_digit CHR ''-''" by simp
    then show False by (simp add: is_digit_def)
  qed
  then show "CHR ''-'' # cs \<noteq> str_nat n" by (rule not_sym)
qed

lemma str_int_inj: "str_int i = str_int j \<longleftrightarrow> i = j"
proof (cases "i < 0"; cases "j < 0")
  assume "i < 0" "j < 0"
  then show ?thesis by (auto simp: str_int_def str_nat_inj)
next
  assume "i < 0" "\<not> j < 0"
  then show ?thesis by (auto simp: str_int_def str_nat_no_minus)
next
  assume "\<not> i < 0" "j < 0"
  then show ?thesis by (auto simp: str_int_def str_nat_no_minus)
next
  assume "\<not> i < 0" "\<not> j < 0"
  then show ?thesis by (auto simp: str_int_def str_nat_inj)
qed

lemma custom_text_eq_iff: "custom_text t1 = custom_text t2 \<longleftrightarrow> trunc t1 = trunc t2"
  by (simp add: custom_text_def str_int_inj)

lemma str_nat_1700000010: "str_nat 1700000010 = ''1700000010''"
  by (simp add: str_nat.simps char_of_def bit_0)

lemma trunc_same_second:
  "trunc (3400000021 / 2) = 1700000010 \<and> trunc (17000000109 / 10) = 1700000010"
  by code_simp

lemma tag_collision:
  "custom_text (3400000021 / 2) = ''dual-hedge-1700000010''
   \<and> custom_text (17000000109 / 10) = ''dual-hedge-1700000010''"
  by (simp add: custom_text_def trunc_same_second str_int_def str_nat_1700000010)

text \<open>
  C8 (as the code has it). Two clock readings give the same tag exactly when they
  have the same whole number of seconds: the tags of two runs differ if and only if
  the runs make their tags in different seconds.
\<close>

theorem custom_text_same_second:
  "(custom_text t1 = custom_text t2 \<longleftrightarrow> trunc t1 = trunc t2)
   \<and> (custom_text t1 \<noteq> custom_text t2 \<longleftrightarrow> trunc t1 \<noteq> trunc t2)"
  using custom_text_eq_iff[of t1 t2] by blast

text \<open>
  C8 as stated fails: two runs that make their tags at 1700000010.5 and at
  1700000010.9, two different moments of one second, get the same tag.
\<close>

theorem custom_text_collision_counterexample:
  "(3400000021 / 2 :: rat) \<noteq> 17000000109 / 10
   \<and> custom_text (3400000021 / 2) = ''dual-hedge-1700000010''
   \<and> custom_text (17000000109 / 10) = ''dual-hedge-1700000010''
   \<and> custom_text (3400000021 / 2) = custom_text (17000000109 / 10)"
  using tag_collision by simp

section \<open>Properties of the orders and of the main flow\<close>

lemma then_do_Inr: "then_do (tr, Inr x) f = (tr @ fst (f x), snd (f x))"
  by (simp add: then_do_def split: prod.splits)

lemma then_do_Inl: "then_do (tr, Inl e) f = (tr, Inl e)"
  by (simp add: then_do_def)

lemma e2e_amount: "py_float (JStr (str_strip ''1000'')) = Inr (Fin 1000)"
  by code_simp

lemma e2e_plan:
  "find_best_eth_dual_one_day (Inr [sample_offer (JInt 1700082800) (JStr ''9.0'')])
     (trunc (3400000001 / 2))
   = Inr (sample_offer (JInt 1700082800) (JStr ''9.0'') @ [(''_apy'', JFloat (Fin 9))])"
  by code_simp

lemma e2e_price:
  "subscript_then (sample_offer (JInt 1700082800) (JStr ''9.0'') @ [(''_apy'', JFloat (Fin 9))])
     ''exercise_price'' py_float = Inr (Fin 3000)"
  by code_simp

lemma e2e_apy:
  "py_float (get_default (sample_offer (JInt 1700082800) (JStr ''9.0'') @ [(''_apy'', JFloat (Fin 9))])
     ''apy_display'' (JStr ''0'')) = Inr (Fin 9)"
  by code_simp

lemma e2e_delivery:
  "subscript_then (sample_offer (JInt 1700082800) (JStr ''9.0'') @ [(''_apy'', JFloat (Fin 9))])
     ''delivery_time'' py_int = Inr 1700082800"
  by code_simp

lemma e2e_dt: "fromtimestamp 1700082800 = Inr 1700082800"
  by code_simp

lemma e2e_notional: "calc_hedge_size_usdt (Fin 1000) (JFloat (Fin 1)) (Fin 3000) = Inr (Fin 1000)"
  by code_simp

lemma e2e_contract:
  "get_futures_contract ''usdt'' ''ETH_USDT''
     (Inr [[(''name'', JStr ''BTC_USDT''), (''quanto_multiplier'', JStr ''0.0001'')],
           [(''name'', JStr ''ETH_USDT'')]])
   = ([HttpGet ''/futures/usdt/contracts'' ''''], Inr [(''name'', JStr ''ETH_USDT'')])"
  by code_simp

lemma e2e_ticker:
  "get_futures_ticker ''usdt'' ''ETH_USDT''
     (Inr (Inl [[(''contract'', JStr ''ETH_USDT''), (''last'', JStr ''3100.5'')]]))
   = ([HttpGet ''/futures/usdt/tickers'' ''contract=ETH_USDT''],
      Inr [(''contract'', JStr ''ETH_USDT''), (''last'', JStr ''3100.5'')])"
  by code_simp

lemma e2e_mark:
  "subscript_then [(''contract'', JStr ''ETH_USDT''), (''last'', JStr ''3100.5'')] ''last'' py_float
   = Inr (Fin (6201 / 2))"
  by code_simp

lemma e2e_size:
  "calc_contract_size_from_usdt (Fin 1000) [(''name'', JStr ''ETH_USDT'')] (Fin (6201 / 2)) = Inr 1000"
  by code_simp

lemma e2e_confirm: "map lower (str_strip ''yes'') = ''yes''"
  by code_simp

lemma trunc_tag_clock: "trunc (3400000021 / 2) = 1700000010"
  by code_simp

lemma e2e_tag: "custom_text (3400000021 / 2) = ''dual-hedge-1700000010''"
  by (simp add: custom_text_def trunc_tag_clock str_int_def str_nat_1700000010)

lemma e2e_dual:
  "place_dual_order (sample_offer (JInt 1700082800) (JStr ''9.0'') @ [(''_apy'', JFloat (Fin 9))])
     (Fin 1000) ''dual-hedge-1700000010'' (Inr (JObj []))
   = ([HttpPost ''/earn/dual/orders''
         (DualOrder \<lparr>dual_plan_id = JInt 272, dual_amount = Fin 1000,
                     dual_text = ''dual-hedge-1700000010''\<rparr>)], Inr (JObj []))"
  by code_simp

lemma e2e_short:
  "open_futures_short ''usdt'' ''ETH_USDT'' 1000 False (Inr (JObj []))
   = ([HttpPost ''/futures/usdt/orders''
         (FuturesOrder \<lparr>fut_contract = ''ETH_USDT'', fut_size = - 1000, fut_iceberg = 0,
                        fut_tif = ''ioc'', fut_text = ''dual-hedge-short'',
                        fut_reduce_only = False\<rparr>)], Inr (JObj []))"
  by code_simp

lemma main_e2e:
  "main e2e_config e2e_world =
     ([HttpGet ''/earn/dual/investment_plan'' '''',
       HttpGet ''/futures/usdt/contracts'' '''',
       HttpGet ''/futures/usdt/tickers'' ''contract=ETH_USDT'',
       HttpPost ''/earn/dual/orders''
         (DualOrder \<lparr>dual_plan_id = JInt 272, dual_amount = Fin 1000,
                     dual_text = ''dual-hedge-1700000010''\<rparr>),
       HttpPost ''/futures/usdt/orders''
         (FuturesOrder \<lparr>fut_contract = ''ETH_USDT'', fut_size = - 1000, fut_iceberg = 0,
                        fut_tif = ''ioc'', fut_text = ''dual-hedge-short'',
                        fut_reduce_only = False\<rparr>)],
      Inr ())"
  unfolding main_def e2e_config_def e2e_world_def
  by (simp add: no_call_def then_do_Inr e2e_amount e2e_plan e2e_price e2e_apy e2e_delivery
        e2e_dt e2e_notional e2e_contract e2e_ticker e2e_mark e2e_size e2e_confirm e2e_tag
        e2e_dual e2e_short)

lemma submissions_Nil: "submissions [] = []"
  by (simp add: submissions_def)

lemma submissions_append: "submissions (a @ b) = submissions a @ submissions b"
  by (simp add: submissions_def)

lemma peel:
  assumes "submissions (fst m) = []"
    and "\<And>x. snd m = Inr x \<Longrightarrow> submitted_in_order s (submissions (fst (f x)))"
  shows "submitted_in_order s (submissions (fst (then_do m f)))"
proof (cases m)
  case (Pair tr r)
  show ?thesis
  proof (cases r)
    case (Inl e)
    with Pair assms(1) show ?thesis by (simp add: then_do_def)
  next
    case (Inr x)
    with Pair assms(2)[of x] have "submitted_in_order s (submissions (fst (f x)))" by simp
    with Pair Inr assms(1) show ?thesis
      by (cases "f x") (simp add: then_do_def submissions_append)
  qed
qed

lemma peel_no_call:
  "(\<And>x. r = Inr x \<Longrightarrow> submitted_in_order s (submissions (fst (f x)))) \<Longrightarrow>
   submitted_in_order s (submissions (fst (then_do (no_call r) f)))"
  by (rule peel) (simp_all add: no_call_def submissions_def)

lemma peel_get:
  "(\<And>x. r = Inr x \<Longrightarrow> submitted_in_order s (submissions (fst (f x)))) \<Longrightarrow>
   submitted_in_order s (submissions (fst (then_do ([HttpGet a b], r) f)))"
  by (rule peel) (simp_all add: submissions_def is_submission_def)

lemma peel_contract:
  "(\<And>x. snd (get_futures_contract a b r) = Inr x \<Longrightarrow> submitted_in_order s (submissions (fst (f x)))) \<Longrightarrow>
   submitted_in_order s (submissions (fst (then_do (get_futures_contract a b r) f)))"
  by (rule peel) (simp_all add: get_futures_contract_def submissions_def is_submission_def)

lemma peel_ticker:
  "(\<And>x. snd (get_futures_ticker a b r) = Inr x \<Longrightarrow> submitted_in_order s (submissions (fst (f x)))) \<Longrightarrow>
   submitted_in_order s (submissions (fst (then_do (get_futures_ticker a b r) f)))"
  by (rule peel) (simp_all add: get_futures_ticker_def submissions_def is_submission_def)

lemma submit_phase:
  "submitted_in_order settle (submissions (fst (
     then_do (place_dual_order plan amount tag dr) (\<lambda>dual_resp.
     then_do (open_futures_short settle contract sz False fr) (\<lambda>fut_resp.
     ([], Inr ()))))))"
  by (cases dr; cases fr)
     (simp_all add: place_dual_order_def open_futures_short_def then_do_def submissions_def
        is_submission_def subscript_def split: option.splits)

lemma main_in_order:
  "submitted_in_order (futures_settle cfg) (submissions (fst (main cfg w)))"
  unfolding main_def
  apply (intro peel_no_call peel_get peel_contract peel_ticker)
  apply (simp add: submit_phase submissions_Nil)
  done

lemma in_order_cases:
  "submitted_in_order settle ss \<longleftrightarrow>
     ss = []
     \<or> (\<exists>d. ss = [HttpPost ''/earn/dual/orders'' (DualOrder d)])
     \<or> (\<exists>d f. ss = [HttpPost ''/earn/dual/orders'' (DualOrder d),
                      HttpPost (''/futures/'' @ settle @ ''/orders'') (FuturesOrder f)])"
  by (induction settle ss rule: submitted_in_order.induct) auto

lemma e2e_submissions:
  "submissions (fst (main e2e_config e2e_world)) =
     [HttpPost ''/earn/dual/orders''
        (DualOrder \<lparr>dual_plan_id = JInt 272, dual_amount = Fin 1000,
                    dual_text = ''dual-hedge-1700000010''\<rparr>),
      HttpPost ''/futures/usdt/orders''
        (FuturesOrder \<lparr>fut_contract = ''ETH_USDT'', fut_size = - 1000, fut_iceberg = 0,
                       fut_tif = ''ioc'', fut_text = ''dual-hedge-short'',
                       fut_reduce_only = False\<rparr>)]"
  by (simp add: main_e2e submissions_def is_submission_def)

text \<open>
  C5. In every run of the main flow the order submissions are none, or the
  investment order alone, or the investment order and then the hedge order: the
  hedge order is never submitted without the investment order before it. The
  end-to-end scenario is a run with both, in that sequence.
\<close>

theorem main_submits_investment_first:
  "(submissions (fst (main cfg w)) = []
    \<or> (\<exists>d. submissions (fst (main cfg w)) = [HttpPost ''/earn/dual/orders'' (DualOrder d)])
    \<or> (\<exists>d f. submissions (fst (main cfg w))
               = [HttpPost ''/earn/dual/orders'' (DualOrder d),
                  HttpPost (''/futures/'' @ futures_settle cfg @ ''/orders'') (FuturesOrder f)]))
   \<and> submitted_in_order (futures_settle cfg) (submissions (fst (main cfg w)))
   \<and> submissions (fst (main e2e_config e2e_world)) =
       [HttpPost ''/earn/dual/orders''
          (DualOrder \<lparr>dual_plan_id = JInt 272, dual_amount = Fin 1000,
                      dual_text = ''dual-hedge-1700000010''\<rparr>),
        HttpPost ''/futures/usdt/orders''
          (FuturesOrder \<lparr>fut_contract = ''ETH_USDT'', fut_size = - 1000, fut_iceberg = 0,
                         fut_tif = ''ioc'', fut_text = ''dual-hedge-short'',
                         fut_reduce_only = False\<rparr>)]"
  using main_in_order[of cfg w]
    in_order_cases[of "futures_settle cfg" "submissions (fst (main cfg w))"]
    e2e_submissions
  by blast

text \<open>
  C7. For every size, \<^verbatim>\<open>open_futures_short\<close> posts one order to the futures order
  path, whose size is minus the magnitude of the size given, so never positive, and
  whose time-in-force is \<^verbatim>\<open>ioc\<close>. For the size 1000 the size posted is -1000; 1000
  is the contract size of the end-to-end scenario, and -1000 the size of its hedge
  order.
\<close>

theorem open_futures_short_posts_short:
  "open_futures_short settle contract sz reduce_only response
     = ([HttpPost (''/futures/'' @ settle @ ''/orders'')
           (FuturesOrder (futures_short_body contract sz reduce_only))], response)
   \<and> fut_size (futures_short_body contract sz reduce_only) = - \<bar>sz\<bar>
   \<and> fut_size (futures_short_body contract sz reduce_only) \<le> 0
   \<and> fut_tif (futures_short_body contract sz reduce_only) = ''ioc''
   \<and> fut_contract (futures_short_body contract sz reduce_only) = contract
   \<and> fut_size (futures_short_body contract 1000 reduce_only) = - 1000
   \<and> calc_contract_size_from_usdt (Fin 1000) [(''name'', JStr ''ETH_USDT'')] (Fin (6201 / 2))
       = Inr 1000
   \<and> submissions (fst (main e2e_config e2e_world)) =
       [HttpPost ''/earn/dual/orders''
          (DualOrder \<lparr>dual_plan_id = JInt 272, dual_amount = Fin 1000,
                      dual_text = ''dual-hedge-1700000010''\<rparr>),
        HttpPost ''/futures/usdt/orders''
          (FuturesOrder (futures_short_body ''ETH_USDT'' 1000 False))]"
  using e2e_submissions e2e_size
  by (simp add: open_futures_short_def futures_short_body_def)

end
